theory Spec2Isabelle
  imports Complex_Main
begin

section \<open>Data model\<close>

text \<open>
  The module \<^verbatim>\<open>safety_barrier.py\<close> works on torch tensors of 32-bit floats. A tensor of
  shape [B, C, H, W] is a list of B batch elements, each a list of C channels, each a
  plane of H rows of W cells. Cell values are real numbers. The functions are given
  first in exact arithmetic, the computation the code performs before any rounding.
  Where a property depends on the rounding itself, the steps concerned are given a
  second time with the float32 rounding of every operation written out (\<open>fl32\<close>,
  \<open>compute_sdf32\<close>, \<open>h_val32\<close>). Infinities and NaN are not modelled.
\<close>

type_synonym plane = "real list list"
type_synonym tensor4 = "plane list list"

text \<open>The attributes stored by \<^verbatim>\<open>SafetyBarrier.__init__\<close>.\<close>

record config =
  pixel_size :: real
  ego_radius :: real
  bev_range :: real

definition SafetyBarrier :: "real \<Rightarrow> real \<Rightarrow> real \<Rightarrow> config" where
  "SafetyBarrier ps er br = \<lparr>pixel_size = ps, ego_radius = er, bev_range = br\<rparr>"

text \<open>The shape of a tensor: every batch element has C channels, every channel H rows,
  every row W cells.\<close>

definition wf_plane :: "nat \<Rightarrow> nat \<Rightarrow> plane \<Rightarrow> bool" where
  "wf_plane H W p = (length p = H \<and> list_all (\<lambda>r. length r = W) p)"

definition wf4 :: "nat \<Rightarrow> nat \<Rightarrow> nat \<Rightarrow> nat \<Rightarrow> tensor4 \<Rightarrow> bool" where
  "wf4 B C H W t =
     (length t = B \<and> list_all (\<lambda>cs. length cs = C \<and> list_all (wf_plane H W) cs) t)"

text \<open>Elementwise operations on tensors of one shape.\<close>

definition tmap :: "(real \<Rightarrow> real) \<Rightarrow> tensor4 \<Rightarrow> tensor4" where
  "tmap f t = map (map (map (map f))) t"

definition tzip :: "(real \<Rightarrow> real \<Rightarrow> real) \<Rightarrow> tensor4 \<Rightarrow> tensor4 \<Rightarrow> tensor4" where
  "tzip f s t = map2 (map2 (map2 (map2 f))) s t"

section \<open>compute\_sdf\<close>

text \<open>\<^verbatim>\<open>torch.sigmoid\<close>.\<close>

definition sigmoid :: "real \<Rightarrow> real" where
  "sigmoid x = 1 / (1 + exp (- x))"

text \<open>The slice \<^verbatim>\<open>semantics[:, 1:2, :, :]\<close>: of every batch element the channels from
  index 1 up to, not including, index 2. A Python slice never raises; with fewer than
  two channels it is empty.\<close>

definition road_channel :: "tensor4 \<Rightarrow> tensor4" where
  "road_channel semantics = map (\<lambda>cs. take 1 (drop 1 cs)) semantics"

text \<open>\<^verbatim>\<open>drivable_mask = (road_prob > threshold).float()\<close> and
  \<^verbatim>\<open>non_drivable_mask = 1.0 - drivable_mask\<close>.\<close>

definition drivable_mask :: "tensor4 \<Rightarrow> real \<Rightarrow> tensor4" where
  "drivable_mask semantics threshold =
     (let road_prob = tmap sigmoid (road_channel semantics)
      in tmap (\<lambda>p. if p > threshold then 1 else 0) road_prob)"

definition non_drivable_mask :: "tensor4 \<Rightarrow> real \<Rightarrow> tensor4" where
  "non_drivable_mask semantics threshold = tmap (\<lambda>m. 1 - m) (drivable_mask semantics threshold)"

text \<open>
  Step 4 of \<^verbatim>\<open>compute_sdf\<close>, the field in grid cells before scaling and margin. The
  distance transform is \<^verbatim>\<open>kornia.contrib.distance_transform\<close>, a library function that
  is not part of the repository: it is the parameter \<open>dt\<close>.
\<close>

definition signed_field :: "(tensor4 \<Rightarrow> tensor4) \<Rightarrow> tensor4 \<Rightarrow> real \<Rightarrow> tensor4" where
  "signed_field dt semantics threshold =
     (let dist_to_boundary = dt (drivable_mask semantics threshold);
          dist_to_drivable = dt (non_drivable_mask semantics threshold)
      in tzip (\<lambda>a b. a - b) dist_to_boundary dist_to_drivable)"

definition compute_sdf :: "(tensor4 \<Rightarrow> tensor4) \<Rightarrow> config \<Rightarrow> tensor4 \<Rightarrow> real \<Rightarrow> tensor4" where
  "compute_sdf dt self semantics threshold =
     (let sdf = signed_field dt semantics threshold
      in tmap (\<lambda>x. x * pixel_size self - ego_radius self) sdf)"

section \<open>get\_gradients\<close>

text \<open>The source has no raise, assert or check of its own. A call fails when one of
  the library functions it calls raises: torch raises a RuntimeError when tensor sizes
  do not fit together. The error value names the library call that raised; for the
  distance transform, whose library is not part of the repository, it records only
  that this call raised.\<close>

datatype call = F_pad | F_conv2d | F_grid_sample | Distance_transform

datatype error = RuntimeError call

text \<open>\<^verbatim>\<open>compute_sdf\<close> as a call that can fail. Its only calls that can raise are the two
  of the library's distance transform, here a parameter that returns a tensor or an
  error; an exception of either call ends \<^verbatim>\<open>compute_sdf\<close>, and where both return, the
  result is the one \<open>compute_sdf\<close> gives.\<close>

definition compute_sdf_call ::
  "(tensor4 \<Rightarrow> error + tensor4) \<Rightarrow> config \<Rightarrow> tensor4 \<Rightarrow> real \<Rightarrow> error + tensor4" where
  "compute_sdf_call dt self semantics threshold =
     (case dt (drivable_mask semantics threshold) of Inl e \<Rightarrow> Inl e
      | Inr dist_to_boundary \<Rightarrow>
     (case dt (non_drivable_mask semantics threshold) of Inl e \<Rightarrow> Inl e
      | Inr dist_to_drivable \<Rightarrow>
        (let sdf = tzip (\<lambda>a b. a - b) dist_to_boundary dist_to_drivable
         in Inr (tmap (\<lambda>x. x * pixel_size self - ego_radius self) sdf))))"

text \<open>\<^verbatim>\<open>H, W = sdf.shape[-2:]\<close>.\<close>

definition plane_W :: "plane \<Rightarrow> nat" where
  "plane_W p = (case p of [] \<Rightarrow> 0 | r # _ \<Rightarrow> length r)"

definition shape_H :: "tensor4 \<Rightarrow> nat" where
  "shape_H t = (case t of [] \<Rightarrow> 0 | cs # _ \<Rightarrow> (case cs of [] \<Rightarrow> 0 | p # _ \<Rightarrow> length p))"

definition shape_W :: "tensor4 \<Rightarrow> nat" where
  "shape_W t = (case t of [] \<Rightarrow> 0 | cs # _ \<Rightarrow> (case cs of [] \<Rightarrow> 0 | p # _ \<Rightarrow> plane_W p))"

text \<open>The two kernels of step 1, each entry divided by 8.\<close>

definition sobel_x :: plane where
  "sobel_x = map (map (\<lambda>w. w / 8)) [[-1, 0, 1], [-2, 0, 2], [-1, 0, 1]]"

definition sobel_y :: plane where
  "sobel_y = map (map (\<lambda>w. w / 8)) [[-1, -2, -1], [0, 0, 0], [1, 2, 1]]"

text \<open>Modelled from the spec: \<^verbatim>\<open>F.pad(sdf, (1, 1, 1, 1), mode='replicate')\<close> of torch, which is
  not part of the repository. Every plane gets one more cell on each side, a copy of
  the nearest edge cell; torch refuses a plane with no rows or no columns.\<close>

definition pad_row :: "real list \<Rightarrow> real list" where
  "pad_row r = hd r # r @ [last r]"

definition pad_plane :: "plane \<Rightarrow> plane" where
  "pad_plane p = (let q = map pad_row p in hd q # q @ [last q])"

definition pad_replicate :: "tensor4 \<Rightarrow> error + tensor4" where
  "pad_replicate t =
     (if list_all (list_all (\<lambda>p. p \<noteq> [] \<and> list_all (\<lambda>r. r \<noteq> []) p)) t
      then Inr (map (map pad_plane) t) else Inl (RuntimeError F_pad))"

text \<open>Modelled from the spec: \<^verbatim>\<open>F.conv2d(input, weight)\<close> of torch with a weight of shape
  [1, 1, 3, 3], no padding and stride 1: the cross-correlation of the one input channel
  with the 3x3 kernel. torch refuses an input whose channel count is not 1.\<close>

definition conv_plane :: "plane \<Rightarrow> plane \<Rightarrow> plane" where
  "conv_plane k q =
     map (\<lambda>i. map (\<lambda>j. \<Sum>u\<leftarrow>[0..<3]. \<Sum>v\<leftarrow>[0..<3]. q ! (i + u) ! (j + v) * k ! u ! v)
                 [0..<plane_W q - 2])
         [0..<length q - 2]"

definition conv2d :: "tensor4 \<Rightarrow> plane \<Rightarrow> error + tensor4" where
  "conv2d t k =
     (if list_all (\<lambda>cs. length cs = 1) t
      then Inr (map (map (conv_plane k)) t) else Inl (RuntimeError F_conv2d))"

text \<open>\<^verbatim>\<open>torch.clamp(x, lo, hi)\<close>.\<close>

definition clamp :: "real \<Rightarrow> real \<Rightarrow> real \<Rightarrow> real" where
  "clamp x lo hi = min (max x lo) hi"

text \<open>\<^verbatim>\<open>metric_to_grid\<close> on one trajectory point (forward, lateral), and on the whole
  [B, N, 2] tensor. The result pairs are (x, y): horizontal first, vertical second.\<close>

definition metric_to_grid_point :: "config \<Rightarrow> nat \<Rightarrow> nat \<Rightarrow> real \<times> real \<Rightarrow> real \<times> real" where
  "metric_to_grid_point self H W t =
     (let pixel_y = fst t / pixel_size self;
          pixel_x = snd t / pixel_size self + real W / 2;
          norm_x = (pixel_x / (real W - 1)) * 2 - 1;
          norm_y = (pixel_y / (real H - 1)) * 2 - 1
      in (clamp norm_x (-1) 1, clamp norm_y (-1) 1))"

definition metric_to_grid ::
  "config \<Rightarrow> (real \<times> real) list list \<Rightarrow> nat \<Rightarrow> nat \<Rightarrow> (real \<times> real) list list" where
  "metric_to_grid self trajs H W = map (map (metric_to_grid_point self H W)) trajs"

text \<open>Modelled from the spec: \<^verbatim>\<open>F.grid_sample(input, grid, align_corners=True,
  mode='bilinear', padding_mode='border')\<close> of torch. A normalized coordinate in
  [-1, 1] is mapped to an index in [0, size - 1], clipped to that range, and the value
  is interpolated between the four cells around the index; a neighbour outside the
  plane adds nothing. torch refuses an input and a grid of different batch sizes.\<close>

definition unnormalize :: "real \<Rightarrow> nat \<Rightarrow> real" where
  "unnormalize c sz = ((c + 1) / 2) * (real sz - 1)"

definition clip_coordinates :: "real \<Rightarrow> nat \<Rightarrow> real" where
  "clip_coordinates c sz = min (real sz - 1) (max c 0)"

definition cell :: "plane \<Rightarrow> int \<Rightarrow> int \<Rightarrow> real" where
  "cell p iy ix =
     (if 0 \<le> iy \<and> iy < int (length p) \<and> 0 \<le> ix \<and> ix < int (plane_W p)
      then p ! nat iy ! nat ix else 0)"

definition bilinear_border :: "plane \<Rightarrow> real \<times> real \<Rightarrow> real" where
  "bilinear_border p g =
     (let ix = clip_coordinates (unnormalize (fst g) (plane_W p)) (plane_W p);
          iy = clip_coordinates (unnormalize (snd g) (length p)) (length p);
          ix_nw = \<lfloor>ix\<rfloor>; iy_nw = \<lfloor>iy\<rfloor>;
          ix_se = ix_nw + 1; iy_se = iy_nw + 1;
          nw = (real_of_int ix_se - ix) * (real_of_int iy_se - iy);
          ne = (ix - real_of_int ix_nw) * (real_of_int iy_se - iy);
          sw = (real_of_int ix_se - ix) * (iy - real_of_int iy_nw);
          se = (ix - real_of_int ix_nw) * (iy - real_of_int iy_nw)
      in cell p iy_nw ix_nw * nw + cell p iy_nw ix_se * ne
       + cell p iy_se ix_nw * sw + cell p iy_se ix_se * se)"

definition grid_sample :: "tensor4 \<Rightarrow> (real \<times> real) list list \<Rightarrow> error + real list list list" where
  "grid_sample input grid =
     (if length input = length grid
      then Inr (map2 (\<lambda>cs pts. map (\<lambda>p. map (bilinear_border p) pts) cs) input grid)
      else Inl (RuntimeError F_grid_sample))"

text \<open>\<^verbatim>\<open>.view(B, N, 1)\<close> of a sampled [B, 1, 1, N] tensor: the cells of a batch element in
  storage order. The trailing axis of length 1 is not kept.\<close>

definition view_BN :: "real list list list \<Rightarrow> real list list" where
  "view_BN t = map concat t"

text \<open>\<^verbatim>\<open>get_gradients\<close>: the values [B, N] and the gradients [B, N, 2], the two components
  of a gradient as a pair.\<close>

definition get_gradients ::
  "config \<Rightarrow> tensor4 \<Rightarrow> (real \<times> real) list list
     \<Rightarrow> error + (real list list \<times> (real \<times> real) list list)" where
  "get_gradients self sdf trajs =
     (let H = shape_H sdf; W = shape_W sdf in
      case pad_replicate sdf of Inl e \<Rightarrow> Inl e | Inr sdf_padded \<Rightarrow>
      (case conv2d sdf_padded sobel_x of Inl e \<Rightarrow> Inl e | Inr grad_x_map \<Rightarrow>
      (case conv2d sdf_padded sobel_y of Inl e \<Rightarrow> Inl e | Inr grad_y_map \<Rightarrow>
      (let grid_coords = metric_to_grid self trajs H W in
       case grid_sample sdf grid_coords of Inl e \<Rightarrow> Inl e | Inr h_val \<Rightarrow>
       (case grid_sample grad_x_map grid_coords of Inl e \<Rightarrow> Inl e | Inr grad_x_sampled \<Rightarrow>
       (case grid_sample grad_y_map grid_coords of Inl e \<Rightarrow> Inl e | Inr grad_y_sampled \<Rightarrow>
       (let grad_metric_x = map (map (\<lambda>g. g / pixel_size self)) (view_BN grad_y_sampled);
            grad_metric_y = map (map (\<lambda>g. g / pixel_size self)) (view_BN grad_x_sampled);
            h_grad = map2 (map2 Pair) grad_metric_x grad_metric_y
        in Inr (view_BN h_val, h_grad))))))))"

section \<open>The gradient estimate in the spec's words\<close>

text \<open>
  The spec's description of the gradient estimate, for comparison with the padding and
  convolution of the code: \<open>edge_cell\<close> reads the plane with edge replication (an index
  outside the plane is moved to the nearest row or column), \<open>row_gradient\<close> is the
  Sobel difference between the row below and the row above a cell, \<open>col_gradient\<close>
  the one between the column to the right and the column to the left, each over 8.
\<close>

definition edge_cell :: "plane \<Rightarrow> int \<Rightarrow> int \<Rightarrow> real" where
  "edge_cell p i j =
     p ! nat (max 0 (min i (int (length p) - 1))) ! nat (max 0 (min j (int (plane_W p) - 1)))"

definition row_gradient :: "plane \<Rightarrow> int \<Rightarrow> int \<Rightarrow> real" where
  "row_gradient p i j =
     ((edge_cell p (i + 1) (j - 1) + 2 * edge_cell p (i + 1) j + edge_cell p (i + 1) (j + 1))
    - (edge_cell p (i - 1) (j - 1) + 2 * edge_cell p (i - 1) j + edge_cell p (i - 1) (j + 1))) / 8"

definition col_gradient :: "plane \<Rightarrow> int \<Rightarrow> int \<Rightarrow> real" where
  "col_gradient p i j =
     ((edge_cell p (i - 1) (j + 1) + 2 * edge_cell p i (j + 1) + edge_cell p (i + 1) (j + 1))
    - (edge_cell p (i - 1) (j - 1) + 2 * edge_cell p i (j - 1) + edge_cell p (i + 1) (j - 1))) / 8"

section \<open>The coordinate conversion in the spec's words\<close>

text \<open>
  The spec's conversion, for comparison with \<^verbatim>\<open>metric_to_grid\<close>: the grid row and column
  of a metric point, the normalized coordinate of a grid index along an axis of a given
  length, and a coordinate pinned to the nearest end of [-1, 1].
\<close>

definition grid_row :: "config \<Rightarrow> real \<Rightarrow> real" where
  "grid_row self forward = forward / pixel_size self"

definition grid_col :: "config \<Rightarrow> nat \<Rightarrow> real \<Rightarrow> real" where
  "grid_col self W lateral = lateral / pixel_size self + real W / 2"

definition normalized :: "real \<Rightarrow> nat \<Rightarrow> real" where
  "normalized idx d = (idx / (real d - 1)) * 2 - 1"

definition pinned :: "real \<Rightarrow> real" where
  "pinned c = (if c < -1 then -1 else if 1 < c then 1 else c)"

section \<open>The distance transform of the spec\<close>

text \<open>Modelled from the spec: the distance transform, in the source
  \<^verbatim>\<open>kornia.contrib.distance_transform\<close>, a library function that is not part of the
  repository. By the spec it returns, at every cell of a binary plane, the Euclidean
  distance in grid cells to the nearest zero-valued cell (0 at a zero-valued cell), and
  on a plane with no zero-valued cell its degenerate value, a sentinel distance that
  the implementation fixes: the parameter \<open>far\<close>. Batch elements and channels are
  transformed independently.\<close>

definition zero_cells :: "plane \<Rightarrow> (nat \<times> nat) list" where
  "zero_cells p =
     concat (map (\<lambda>i. map (\<lambda>j. (i, j)) (filter (\<lambda>j. p ! i ! j = 0) [0..<length (p ! i)]))
                 [0..<length p])"

definition cell_distance :: "nat \<times> nat \<Rightarrow> nat \<times> nat \<Rightarrow> real" where
  "cell_distance a b =
     sqrt ((real (fst a) - real (fst b))\<^sup>2 + (real (snd a) - real (snd b))\<^sup>2)"

definition dt_plane :: "real \<Rightarrow> plane \<Rightarrow> plane" where
  "dt_plane far p =
     (let zs = zero_cells p
      in map (\<lambda>i. map (\<lambda>j. if zs = [] then far else Min (set (map (cell_distance (i, j)) zs)))
                      [0..<length (p ! i)])
             [0..<length p])"

definition distance_transform :: "real \<Rightarrow> tensor4 \<Rightarrow> tensor4" where
  "distance_transform far t = map (map (dt_plane far)) t"

section \<open>The float32 arithmetic of the tensors\<close>

text \<open>
  The tensors of the module hold 32-bit floats, and every tensor operation rounds its
  exact result to the nearest float32, ties to the even significand. \<open>rne\<close> rounds a
  real to the nearest integer, ties to even; \<open>fl32\<close> rounds a real to 24 significant
  bits, with the fixed spacing 2^-149 below 2^-126 (the subnormal numbers). Overflow to
  infinity is not part of the rounding: the statements about \<open>fl32\<close> hold for
  computations whose intermediate values stay below 2^128 in magnitude. A Python number
  that meets a float32 tensor in an operation is converted to float32 first.
\<close>

definition rne :: "real \<Rightarrow> int" where
  "rne z = (let f = \<lfloor>z\<rfloor>; r = z - of_int f
            in if r < 1/2 then f else if 1/2 < r then f + 1 else if even f then f else f + 1)"

definition fl32 :: "real \<Rightarrow> real" where
  "fl32 x = (if x = 0 then 0
             else let e = max \<lfloor>log 2 \<bar>x\<bar>\<rfloor> (- 126); u = (2::real) powr (of_int e - 23)
                  in u * of_int (rne (x / u)))"

text \<open>Steps 4 and 5 of \<^verbatim>\<open>compute_sdf\<close> with the rounding of every tensor operation
  written out: the difference of the two distance transforms, the product with
  \<open>pixel_size\<close> and the subtraction of \<open>ego_radius\<close>. The masks are the ones of
  \<open>drivable_mask\<close> and \<open>non_drivable_mask\<close>.\<close>

definition signed_field32 :: "(tensor4 \<Rightarrow> tensor4) \<Rightarrow> tensor4 \<Rightarrow> real \<Rightarrow> tensor4" where
  "signed_field32 dt semantics threshold =
     (let dist_to_boundary = dt (drivable_mask semantics threshold);
          dist_to_drivable = dt (non_drivable_mask semantics threshold)
      in tzip (\<lambda>a b. fl32 (a - b)) dist_to_boundary dist_to_drivable)"

definition scale_margin32 :: "config \<Rightarrow> real \<Rightarrow> real" where
  "scale_margin32 self x = fl32 (fl32 (x * fl32 (pixel_size self)) - fl32 (ego_radius self))"

definition compute_sdf32 :: "(tensor4 \<Rightarrow> tensor4) \<Rightarrow> config \<Rightarrow> tensor4 \<Rightarrow> real \<Rightarrow> tensor4" where
  "compute_sdf32 dt self semantics threshold =
     (let sdf = signed_field32 dt semantics threshold
      in tmap (scale_margin32 self) sdf)"

text \<open>Steps 2 and 3 of \<^verbatim>\<open>get_gradients\<close> with the rounding of every operation written
  out: \<^verbatim>\<open>metric_to_grid\<close> on a point, the sampler's index computation, its four
  weights and its weighted sum, each operation in the order of the exact definitions
  \<open>metric_to_grid_point\<close>, \<open>unnormalize\<close> and \<open>bilinear_border\<close>. Clamping, clipping
  and the floor do not round. \<open>h_val32\<close> is the first result of \<^verbatim>\<open>get_gradients\<close>, the
  sampled values, in this arithmetic; it fails where \<open>get_gradients\<close> fails.\<close>

definition metric_to_grid_point32 :: "config \<Rightarrow> nat \<Rightarrow> nat \<Rightarrow> real \<times> real \<Rightarrow> real \<times> real" where
  "metric_to_grid_point32 self H W t =
     (let ps = fl32 (pixel_size self);
          pixel_y = fl32 (fst t / ps);
          pixel_x = fl32 (fl32 (snd t / ps) + fl32 (real W / 2));
          norm_x = fl32 (fl32 (fl32 (pixel_x / fl32 (real W - 1)) * 2) - 1);
          norm_y = fl32 (fl32 (fl32 (pixel_y / fl32 (real H - 1)) * 2) - 1)
      in (clamp norm_x (-1) 1, clamp norm_y (-1) 1))"

definition unnormalize32 :: "real \<Rightarrow> nat \<Rightarrow> real" where
  "unnormalize32 c sz = fl32 (fl32 (fl32 (c + 1) / 2) * fl32 (real sz - 1))"

definition bilinear_border32 :: "plane \<Rightarrow> real \<times> real \<Rightarrow> real" where
  "bilinear_border32 p g =
     (let ix = clip_coordinates (unnormalize32 (fst g) (plane_W p)) (plane_W p);
          iy = clip_coordinates (unnormalize32 (snd g) (length p)) (length p);
          ix_nw = \<lfloor>ix\<rfloor>; iy_nw = \<lfloor>iy\<rfloor>;
          ix_se = ix_nw + 1; iy_se = iy_nw + 1;
          nw = fl32 (fl32 (real_of_int ix_se - ix) * fl32 (real_of_int iy_se - iy));
          ne = fl32 (fl32 (ix - real_of_int ix_nw) * fl32 (real_of_int iy_se - iy));
          sw = fl32 (fl32 (real_of_int ix_se - ix) * fl32 (iy - real_of_int iy_nw));
          se = fl32 (fl32 (ix - real_of_int ix_nw) * fl32 (iy - real_of_int iy_nw))
      in fl32 (fl32 (fl32 (fl32 (cell p iy_nw ix_nw * nw) + fl32 (cell p iy_nw ix_se * ne))
                     + fl32 (cell p iy_se ix_nw * sw))
               + fl32 (cell p iy_se ix_se * se)))"

definition h_val32 ::
  "config \<Rightarrow> tensor4 \<Rightarrow> (real \<times> real) list list \<Rightarrow> error + real list list" where
  "h_val32 self sdf trajs =
     (let H = shape_H sdf; W = shape_W sdf in
      case get_gradients self sdf trajs of Inl e \<Rightarrow> Inl e
      | Inr r \<Rightarrow>
        (let grid_coords = map (map (metric_to_grid_point32 self H W)) trajs
         in Inr (view_BN (map2 (\<lambda>cs pts. map (\<lambda>p. map (bilinear_border32 p) pts) cs)
                            sdf grid_coords))))"

section \<open>Indexing lemmas\<close>

lemma wf4_nth:
  assumes "wf4 B C H W t" "b < B" "c < C" "i < H"
  shows "length t = B" "length (t ! b) = C" "length (t ! b ! c) = H" "length (t ! b ! c ! i) = W"
  using assms by (auto simp: wf4_def wf_plane_def list_all_length)

lemma tmap_nth:
  assumes "wf4 B C H W t" "b < B" "c < C" "i < H" "j < W"
  shows "tmap f t ! b ! c ! i ! j = f (t ! b ! c ! i ! j)"
  using assms by (simp add: tmap_def wf4_def wf_plane_def list_all_length)

lemma wf4_tmap: "wf4 B C H W (tmap f t) = wf4 B C H W t"
  by (simp add: wf4_def wf_plane_def tmap_def list_all_length)

lemma tzip_nth:
  assumes "wf4 B C H W s" "wf4 B C H W t" "b < B" "c < C" "i < H" "j < W"
  shows "tzip f s t ! b ! c ! i ! j = f (s ! b ! c ! i ! j) (t ! b ! c ! i ! j)"
  using assms by (simp add: tzip_def wf4_def wf_plane_def list_all_length)

lemma wf4_tzip:
  assumes "wf4 B C H W s" "wf4 B C H W t"
  shows "wf4 B C H W (tzip f s t)"
  using assms by (simp add: tzip_def wf4_def wf_plane_def list_all_length)

lemma tmap_tmap: "tmap f (tmap g t) = tmap (\<lambda>x. f (g x)) t"
  by (simp add: tmap_def comp_def)

section \<open>Masks and field, cell by cell\<close>

lemma wf4_road_channel:
  assumes "wf4 B C H W t" "2 \<le> C"
  shows "wf4 B 1 H W (road_channel t)"
  using assms
  by (auto simp: wf4_def road_channel_def list_all_iff dest!: in_set_takeD in_set_dropD)

lemma road_channel_nth:
  assumes "wf4 B C H W t" "2 \<le> C" "b < B"
  shows "road_channel t ! b ! 0 = t ! b ! 1"
proof -
  have "length t = B" "length (t ! b) = C"
    using assms by (auto simp: wf4_def list_all_length)
  then show ?thesis using assms by (simp add: road_channel_def)
qed

lemma drivable_mask_cell:
  assumes "wf4 B C H W t" "2 \<le> C" "b < B" "i < H" "j < W"
  shows "drivable_mask t thr ! b ! 0 ! i ! j = (if sigmoid (t ! b ! 1 ! i ! j) > thr then 1 else 0)"
proof -
  note w = wf4_road_channel [OF assms(1,2)]
  have w': "wf4 B 1 H W (tmap sigmoid (road_channel t))" using w by (simp add: wf4_tmap)
  show ?thesis
    using tmap_nth [OF w' assms(3) _ assms(4,5), of 0] tmap_nth [OF w assms(3) _ assms(4,5), of 0]
      road_channel_nth [OF assms(1,2,3)]
    by (simp add: drivable_mask_def Let_def)
qed

lemma wf4_drivable_mask:
  assumes "wf4 B C H W t" "2 \<le> C"
  shows "wf4 B 1 H W (drivable_mask t thr)" "wf4 B 1 H W (non_drivable_mask t thr)"
  using wf4_road_channel [OF assms]
  by (simp_all add: drivable_mask_def non_drivable_mask_def Let_def wf4_tmap)

lemma non_drivable_mask_cell:
  assumes "wf4 B C H W t" "2 \<le> C" "b < B" "i < H" "j < W"
  shows "non_drivable_mask t thr ! b ! 0 ! i ! j = 1 - drivable_mask t thr ! b ! 0 ! i ! j"
  using tmap_nth [OF wf4_drivable_mask(1) [OF assms(1,2)] assms(3) _ assms(4,5), of 0]
  by (simp add: non_drivable_mask_def)

lemma compute_sdf_cell:
  assumes "wf4 B 1 H W (dt (drivable_mask t thr))" "wf4 B 1 H W (dt (non_drivable_mask t thr))"
    and "b < B" "i < H" "j < W"
  shows "compute_sdf dt self t thr ! b ! 0 ! i ! j =
           (dt (drivable_mask t thr) ! b ! 0 ! i ! j
            - dt (non_drivable_mask t thr) ! b ! 0 ! i ! j) * pixel_size self - ego_radius self"
    and "signed_field dt t thr ! b ! 0 ! i ! j =
           dt (drivable_mask t thr) ! b ! 0 ! i ! j
            - dt (non_drivable_mask t thr) ! b ! 0 ! i ! j"
    and "wf4 B 1 H W (compute_sdf dt self t thr)"
proof -
  have w: "wf4 B 1 H W (signed_field dt t thr)"
    using wf4_tzip [OF assms(1,2)] by (simp add: signed_field_def Let_def)
  show s: "signed_field dt t thr ! b ! 0 ! i ! j =
           dt (drivable_mask t thr) ! b ! 0 ! i ! j
            - dt (non_drivable_mask t thr) ! b ! 0 ! i ! j"
    using tzip_nth [OF assms(1,2,3) _ assms(4,5), of 0] by (simp add: signed_field_def Let_def)
  show "compute_sdf dt self t thr ! b ! 0 ! i ! j =
           (dt (drivable_mask t thr) ! b ! 0 ! i ! j
            - dt (non_drivable_mask t thr) ! b ! 0 ! i ! j) * pixel_size self - ego_radius self"
    using tmap_nth [OF w assms(3) _ assms(4,5), of 0] s by (simp add: compute_sdf_def Let_def)
  show "wf4 B 1 H W (compute_sdf dt self t thr)"
    using w by (simp add: compute_sdf_def Let_def wf4_tmap)
qed

section \<open>The distance transform of the spec on degenerate planes\<close>

lemma wf_dt_plane: "wf_plane H W p \<Longrightarrow> wf_plane H W (dt_plane far p)"
  by (simp add: wf_plane_def dt_plane_def Let_def list_all_length)

lemma wf4_distance_transform: "wf4 B C H W t \<Longrightarrow> wf4 B C H W (distance_transform far t)"
  by (simp add: wf4_def distance_transform_def list_all_iff wf_dt_plane)

lemma zero_cells_iff:
  "(i, j) \<in> set (zero_cells p) \<longleftrightarrow> i < length p \<and> j < length (p ! i) \<and> p ! i ! j = 0"
  by (auto simp: zero_cells_def)

lemma dt_plane_no_zero:
  assumes "wf_plane H W p" "\<forall>i<H. \<forall>j<W. p ! i ! j \<noteq> 0" "i < H" "j < W"
  shows "dt_plane far p ! i ! j = far"
proof -
  have l: "length p = H" "\<And>i. i < H \<Longrightarrow> length (p ! i) = W"
    using assms(1) by (simp_all add: wf_plane_def list_all_length)
  have "set (zero_cells p) = {}"
  proof (rule ccontr)
    assume "set (zero_cells p) \<noteq> {}"
    then obtain a b where "(a, b) \<in> set (zero_cells p)" by (cases "zero_cells p") auto
    then show False using assms(2) l by (auto simp: zero_cells_iff)
  qed
  then show ?thesis using assms(3,4) l by (simp add: dt_plane_def Let_def)
qed

lemma dt_plane_at_zero:
  assumes "wf_plane H W p" "p ! i ! j = 0" "i < H" "j < W"
  shows "dt_plane far p ! i ! j = 0"
proof -
  have l: "length p = H" "length (p ! i) = W"
    using assms(1,3) by (simp_all add: wf_plane_def list_all_length)
  let ?D = "set (map (cell_distance (i, j)) (zero_cells p))"
  have mem: "(i, j) \<in> set (zero_cells p)" using assms l by (simp add: zero_cells_iff)
  then have ne: "zero_cells p \<noteq> []" by auto
  have "cell_distance (i, j) (i, j) = 0" by (simp add: cell_distance_def)
  then have "0 \<in> ?D" using mem by force
  moreover have "\<forall>d\<in>?D. 0 \<le> d" by (auto simp: cell_distance_def)
  ultimately have "Min ?D = 0" by (intro Min_eqI) auto
  then show ?thesis using assms(3,4) l ne by (simp add: dt_plane_def Let_def)
qed

lemma distance_transform_nth:
  assumes "wf4 B 1 H W t" "b < B"
  shows "distance_transform far t ! b ! 0 = dt_plane far (t ! b ! 0)"
proof -
  have "length t = B" "length (t ! b) = 1" using assms by (auto simp: wf4_def list_all_length)
  then show ?thesis using assms(2) by (simp add: distance_transform_def)
qed

lemma sigmoid_0: "sigmoid 0 = 1 / 2"
  by (simp add: sigmoid_def)

lemma metric_to_grid_point_bev_range:
  "metric_to_grid_point (self\<lparr>bev_range := r\<rparr>) H W = metric_to_grid_point self H W"
  by (rule ext) (simp add: metric_to_grid_point_def)

section \<open>Rounding to float32\<close>

lemma rne_error: "\<bar>of_int (rne z) - z\<bar> \<le> 1/2"
proof -
  have "0 \<le> z - of_int \<lfloor>z\<rfloor>" "z - of_int \<lfloor>z\<rfloor> < 1" by linarith+
  then show ?thesis by (auto simp: rne_def Let_def)
qed

lemma floor_log2_eq:
  assumes "2 powr (of_int e) \<le> x" "x < 2 powr (of_int e + 1)"
  shows "\<lfloor>log 2 x\<rfloor> = e"
proof -
  have pos: "0 < x" using assms(1) by (smt (verit) powr_gt_zero)
  have "of_int e \<le> log 2 x" using assms(1) pos by (simp add: le_log_iff)
  moreover have "log 2 x < of_int e + 1" using assms(2) pos by (simp add: log_less_iff)
  ultimately show ?thesis by linarith
qed

lemma fl32_error: "\<bar>fl32 x - x\<bar> \<le> \<bar>x\<bar> / 2 ^ 24 + 1 / 2 ^ 150"
proof (cases "x = 0")
  case True
  then show ?thesis by (simp add: fl32_def)
next
  case False
  define e where "e = max \<lfloor>log 2 \<bar>x\<bar>\<rfloor> (- 126)"
  define u :: real where "u = 2 powr (of_int e - 23)"
  have upos: "0 < u" by (simp add: u_def)
  have fl: "fl32 x = u * of_int (rne (x / u))"
    using False by (simp add: fl32_def Let_def e_def u_def)
  have "\<bar>fl32 x - x\<bar> = u * \<bar>of_int (rne (x / u)) - x / u\<bar>"
  proof -
    have "fl32 x - x = u * (of_int (rne (x / u)) - x / u)"
      using upos by (simp add: fl algebra_simps)
    then show ?thesis using upos by (simp add: abs_mult)
  qed
  also have "\<dots> \<le> u * (1/2)"
    using rne_error [of "x / u"] upos by (intro mult_left_mono) simp_all
  finally have half: "\<bar>fl32 x - x\<bar> \<le> u / 2" by simp
  have "u / 2 \<le> \<bar>x\<bar> / 2 ^ 24 + 1 / 2 ^ 150"
  proof (cases "- 126 \<le> \<lfloor>log 2 \<bar>x\<bar>\<rfloor>")
    case True
    then have e: "e = \<lfloor>log 2 \<bar>x\<bar>\<rfloor>" by (simp add: e_def)
    have "of_int e \<le> log 2 \<bar>x\<bar>" by (simp add: e)
    then have "2 powr (of_int e) \<le> \<bar>x\<bar>" using False by (simp add: le_log_iff)
    moreover have "u = 2 powr (of_int e) / 2 ^ 23"
      by (simp add: u_def powr_diff)
    ultimately have "u / 2 \<le> \<bar>x\<bar> / 2 ^ 24" by (simp add: field_simps)
    then show ?thesis by (smt (verit) divide_nonneg_pos zero_less_power)
  next
    case False
    then have e: "e = - 126" by (simp add: e_def)
    have "u = 2 powr (- 149)" by (simp add: u_def e)
    also have "\<dots> = 1 / 2 ^ 149" by (simp add: powr_minus_divide)
    finally have "u / 2 = 1 / 2 ^ 150" by simp
    then show ?thesis by simp
  qed
  with half show ?thesis by linarith
qed

lemma fl32_0: "fl32 0 = 0"
  by (simp add: fl32_def)

lemma fl32_pos_exp:
  fixes k :: nat
  assumes "2 ^ k \<le> \<bar>x\<bar>" "\<bar>x\<bar> < 2 * 2 ^ k"
  shows "fl32 x = of_int (rne (x * 2 ^ 23 / 2 ^ k)) * 2 ^ k / 2 ^ 23"
proof -
  have nz: "x \<noteq> 0" using assms(1) by (smt (verit) zero_less_power)
  have "2 powr (of_int (int k)) \<le> \<bar>x\<bar>" "\<bar>x\<bar> < 2 powr (of_int (int k) + 1)"
    using assms by (simp_all add: powr_realpow powr_add)
  then have "\<lfloor>log 2 \<bar>x\<bar>\<rfloor> = int k" by (rule floor_log2_eq)
  then have e: "max \<lfloor>log 2 \<bar>x\<bar>\<rfloor> (- 126) = int k" by simp
  have u: "(2::real) powr (real k - 23) = 2 ^ k / 2 ^ 23"
    by (simp add: powr_diff powr_realpow)
  show ?thesis using nz by (simp add: fl32_def Let_def e u)
qed

lemma fl32_neg_exp:
  fixes k :: nat
  assumes "1 / 2 ^ k \<le> \<bar>x\<bar>" "\<bar>x\<bar> < 2 / 2 ^ k" "k \<le> 126"
  shows "fl32 x = of_int (rne (x * (2 ^ 23 * 2 ^ k))) / (2 ^ 23 * 2 ^ k)"
proof -
  have nz: "x \<noteq> 0" using assms(1) by (smt (verit) divide_pos_pos zero_less_power zero_less_one)
  have "2 powr (of_int (- int k)) \<le> \<bar>x\<bar>" "\<bar>x\<bar> < 2 powr (of_int (- int k) + 1)"
    using assms(1,2) by (simp_all add: powr_realpow powr_diff powr_minus_divide)
  then have "\<lfloor>log 2 \<bar>x\<bar>\<rfloor> = - int k" by (rule floor_log2_eq)
  then have e: "max \<lfloor>log 2 \<bar>x\<bar>\<rfloor> (- 126) = - int k" using assms(3) by simp
  have u: "(2::real) powr (- real k - 23) = 1 / (2 ^ 23 * 2 ^ k)"
    by (simp add: powr_diff powr_realpow powr_minus_divide field_simps)
  show ?thesis using nz by (simp add: fl32_def Let_def e u)
qed

lemma scale_margin32_shift:
  "\<bar>scale_margin32 self s - scale_margin32 (self\<lparr>ego_radius := ego_radius self + delta\<rparr>) s - delta\<bar>
     \<le> (\<bar>fl32 (s * fl32 (pixel_size self)) - fl32 (ego_radius self)\<bar>
         + \<bar>fl32 (s * fl32 (pixel_size self)) - fl32 (ego_radius self + delta)\<bar>
         + \<bar>ego_radius self\<bar> + \<bar>ego_radius self + delta\<bar>) / 2 ^ 24 + 4 / 2 ^ 150"
proof -
  define x where "x = fl32 (s * fl32 (pixel_size self))"
  define r1 where "r1 = fl32 (ego_radius self)"
  define r2 where "r2 = fl32 (ego_radius self + delta)"
  have a: "scale_margin32 self s = fl32 (x - r1)"
    by (simp add: scale_margin32_def x_def r1_def)
  have b: "scale_margin32 (self\<lparr>ego_radius := ego_radius self + delta\<rparr>) s = fl32 (x - r2)"
    by (simp add: scale_margin32_def x_def r2_def)
  define d1 where "d1 = fl32 (x - r1) - (x - r1)"
  define d2 where "d2 = fl32 (x - r2) - (x - r2)"
  define d3 where "d3 = r1 - ego_radius self"
  define d4 where "d4 = r2 - (ego_radius self + delta)"
  define b1 where "b1 = \<bar>x - r1\<bar> / 2 ^ 24 + 1 / 2 ^ 150"
  define b2 where "b2 = \<bar>x - r2\<bar> / 2 ^ 24 + 1 / 2 ^ 150"
  define b3 where "b3 = \<bar>ego_radius self\<bar> / 2 ^ 24 + 1 / 2 ^ 150"
  define b4 where "b4 = \<bar>ego_radius self + delta\<bar> / 2 ^ 24 + 1 / 2 ^ 150"
  have e: "\<bar>d1\<bar> \<le> b1" "\<bar>d2\<bar> \<le> b2" "\<bar>d3\<bar> \<le> b3" "\<bar>d4\<bar> \<le> b4"
    unfolding d1_def d2_def d3_def d4_def b1_def b2_def b3_def b4_def r1_def r2_def
    by (rule fl32_error)+
  have "fl32 (x - r1) - fl32 (x - r2) - delta = d1 - d2 + d4 - d3"
    by (simp add: d1_def d2_def d3_def d4_def)
  then have "\<bar>fl32 (x - r1) - fl32 (x - r2) - delta\<bar> \<le> b1 + b2 + b3 + b4"
    using e by linarith
  also have "b1 + b2 + b3 + b4
      = (\<bar>x - r1\<bar> + \<bar>x - r2\<bar> + \<bar>ego_radius self\<bar> + \<bar>ego_radius self + delta\<bar>) / 2 ^ 24
            + 4 / 2 ^ 150"
    unfolding b1_def b2_def b3_def b4_def by (simp only: add_divide_distrib)
  finally have "\<bar>fl32 (x - r1) - fl32 (x - r2) - delta\<bar>
          \<le> (\<bar>x - r1\<bar> + \<bar>x - r2\<bar> + \<bar>ego_radius self\<bar> + \<bar>ego_radius self + delta\<bar>) / 2 ^ 24
            + 4 / 2 ^ 150" .
  then show ?thesis by (simp add: a b x_def r1_def r2_def)
qed

lemma fl32_100: "fl32 100 = 100"
  by (subst fl32_pos_exp [where k = 6]) (simp_all add: rne_def Let_def)

lemma fl32_quarter: "fl32 (1/4) = 1/4"
  by (subst fl32_neg_exp [where k = 2]) (simp_all add: rne_def Let_def)

lemma fl32_25: "fl32 25 = 25"
  by (subst fl32_pos_exp [where k = 4]) (simp_all add: rne_def Let_def)

lemma fl32_5_2: "fl32 (5/2) = 5/2"
  by (subst fl32_pos_exp [where k = 1]) (simp_all add: rne_def Let_def)

lemma fl32_13_5: "fl32 (13/5) = 5452595/2097152"
  by (subst fl32_pos_exp [where k = 1]) (simp_all add: rne_def Let_def)

lemma fl32_45_2: "fl32 (45/2) = 45/2"
  by (subst fl32_pos_exp [where k = 4]) (simp_all add: rne_def Let_def)

lemma fl32_shifted: "fl32 (46976205/2097152) = 11744051/524288"
  by (subst fl32_pos_exp [where k = 4]) (simp_all add: rne_def Let_def)

section \<open>Padding and convolution, cell by cell\<close>

lemma plane_W_wf: "wf_plane H W p \<Longrightarrow> 0 < H \<Longrightarrow> plane_W p = W"
  by (cases p) (auto simp: wf_plane_def plane_W_def)

lemma wf_plane_nth: "wf_plane H W p \<Longrightarrow> i < H \<Longrightarrow> length (p ! i) = W"
  by (simp add: wf_plane_def list_all_length)

lemma nth_edge_pad:
  assumes "xs \<noteq> []" "j < length xs + 2"
  shows "(hd xs # xs @ [last xs]) ! j = xs ! (min (j - 1) (length xs - 1))"
proof -
  have pos: "0 < length xs" using assms(1) by simp
  consider "j = 0" | "0 < j" "j - 1 < length xs" | "j = Suc (length xs)"
    using assms(2) by linarith
  then show ?thesis
  proof cases
    case 1
    then show ?thesis using assms(1) by (simp add: hd_conv_nth)
  next
    case 2
    then obtain k where k: "j = Suc k" "k < length xs" by (cases j) auto
    then have "min (j - 1) (length xs - 1) = k" by simp
    with k show ?thesis by (simp add: nth_append)
  next
    case 3
    then have "min (j - 1) (length xs - 1) = length xs - 1" by simp
    with 3 assms(1) show ?thesis by (simp add: nth_append last_conv_nth)
  qed
qed

lemma pad_row_nth:
  assumes "length r = W" "0 < W" "j < W + 2"
  shows "pad_row r ! j = r ! (min (j - 1) (W - 1))"
  using nth_edge_pad [of r j] assms by (auto simp: pad_row_def)

lemma length_pad_row: "length (pad_row r) = length r + 2"
  by (simp add: pad_row_def)

lemma wf_pad_plane:
  assumes "wf_plane H W p" "0 < H"
  shows "wf_plane (H + 2) (W + 2) (pad_plane p)"
proof -
  let ?q = "map pad_row p"
  have ne: "?q \<noteq> []" using assms by (auto simp: wf_plane_def)
  have all: "\<forall>r\<in>set ?q. length r = W + 2"
    using assms by (auto simp: wf_plane_def list_all_iff length_pad_row)
  have "hd ?q \<in> set ?q" "last ?q \<in> set ?q" using ne by (rule hd_in_set, rule last_in_set)
  with all have "length (hd ?q) = W + 2" "length (last ?q) = W + 2" by blast+
  with all assms show ?thesis
    by (simp add: wf_plane_def pad_plane_def Let_def list_all_iff)
qed

lemma pad_plane_nth:
  assumes "wf_plane H W p" "0 < H" "0 < W" "i < H + 2" "j < W + 2"
  shows "pad_plane p ! i ! j = p ! (min (i - 1) (H - 1)) ! (min (j - 1) (W - 1))"
proof -
  let ?q = "map pad_row p"
  have lq: "length ?q = H" using assms by (simp add: wf_plane_def)
  have ne: "?q \<noteq> []" using assms by (auto simp: wf_plane_def)
  have row: "pad_plane p ! i = ?q ! (min (i - 1) (H - 1))"
    using nth_edge_pad [of ?q i] ne lq assms(4) by (simp add: pad_plane_def Let_def)
  define i' where "i' = min (i - 1) (H - 1)"
  have i': "i' < H" "i' < length p" using assms by (simp_all add: i'_def wf_plane_def)
  have "length (p ! i') = W" using wf_plane_nth [OF assms(1) i'(1)] .
  then have "pad_row (p ! i') ! j = p ! i' ! (min (j - 1) (W - 1))"
    using pad_row_nth assms by blast
  with row i' show ?thesis by (simp add: i'_def)
qed

lemma length_conv_plane: "length (conv_plane k q) = length q - 2"
  by (simp add: conv_plane_def)

lemma wf_conv_plane:
  assumes "wf_plane (H + 2) (W + 2) q"
  shows "wf_plane H W (conv_plane k q)"
  using assms plane_W_wf [OF assms]
  by (simp add: wf_plane_def conv_plane_def list_all_iff)

lemma conv_plane_nth:
  assumes "wf_plane (H + 2) (W + 2) q" "i < H" "j < W"
  shows "conv_plane k q ! i ! j = (\<Sum>u\<leftarrow>[0..<3]. \<Sum>v\<leftarrow>[0..<3]. q ! (i + u) ! (j + v) * k ! u ! v)"
  using assms plane_W_wf [OF assms(1)]
  by (simp add: wf_plane_def conv_plane_def)

section \<open>get\_gradients on well-shaped input\<close>

lemma wf4_singleton:
  assumes "wf4 B 1 H W t" "b < B"
  shows "t ! b = [t ! b ! 0]" "wf_plane H W (t ! b ! 0)"
proof -
  have "length (t ! b) = 1" "list_all (wf_plane H W) (t ! b)"
    using assms by (auto simp: wf4_def list_all_length)
  then show "t ! b = [t ! b ! 0]" "wf_plane H W (t ! b ! 0)"
    by (cases "t ! b"; simp)+
qed

lemma shape_wf4:
  assumes "wf4 B C H W t" "0 < B" "0 < C" "0 < H"
  shows "shape_H t = H" "shape_W t = W"
proof -
  obtain cs t' where t: "t = cs # t'" using assms by (cases t) (auto simp: wf4_def)
  with assms obtain p cs' where cs: "cs = p # cs'" by (cases cs) (auto simp: wf4_def)
  have p: "wf_plane H W p" using assms t cs by (simp add: wf4_def)
  show "shape_H t = H" using t cs p by (simp add: shape_H_def wf_plane_def)
  show "shape_W t = W"
    using t cs p assms(4) by (cases p) (auto simp: shape_W_def plane_W_def shape_H_def wf_plane_def)
qed

lemma pad_replicate_wf:
  assumes "wf4 B C H W t" "0 < H" "0 < W"
  shows "pad_replicate t = Inr (map (map pad_plane) t)"
proof -
  have "p \<noteq> [] \<and> list_all (\<lambda>r. r \<noteq> []) p" if "cs \<in> set t" "p \<in> set cs" for cs p
  proof -
    have "wf_plane H W p" using assms(1) that by (auto simp: wf4_def list_all_iff)
    with assms(2,3) show ?thesis by (auto simp: wf_plane_def list_all_iff)
  qed
  then show ?thesis by (simp add: pad_replicate_def list_all_iff)
qed

lemma conv2d_wf:
  assumes "wf4 B 1 H W t"
  shows "conv2d (map (map f) t) k = Inr (map (map (\<lambda>p. conv_plane k (f p))) t)"
  using assms by (simp add: conv2d_def wf4_def list_all_iff comp_def)

lemma get_gradients_wf:
  assumes wf: "wf4 B 1 H W sdf" and pos: "0 < H" "0 < W" and len: "length trajs = B"
  shows "get_gradients self sdf trajs =
    (let G = metric_to_grid self trajs (shape_H sdf) (shape_W sdf);
         gx = map (map (\<lambda>p. conv_plane sobel_x (pad_plane p))) sdf;
         gy = map (map (\<lambda>p. conv_plane sobel_y (pad_plane p))) sdf;
         sample = (\<lambda>t. view_BN (map2 (\<lambda>cs pts. map (\<lambda>p. map (bilinear_border p) pts) cs) t G))
     in Inr (sample sdf,
             map2 (map2 Pair) (map (map (\<lambda>g. g / pixel_size self)) (sample gy))
                              (map (map (\<lambda>g. g / pixel_size self)) (sample gx))))"
proof -
  have lB: "length sdf = B" using wf by (simp add: wf4_def)
  show ?thesis
    using lB len
    by (simp add: get_gradients_def pad_replicate_wf [OF wf pos] conv2d_wf [OF wf]
                  grid_sample_def metric_to_grid_def Let_def)
qed

lemma sample_nth:
  assumes "wf4 B 1 H W t" "length G = B" "b < B" "n < length (G ! b)"
  shows "view_BN (map2 (\<lambda>cs pts. map (\<lambda>p. map (bilinear_border p) pts) cs) t G) ! b ! n
           = bilinear_border (t ! b ! 0) (G ! b ! n)"
    and "length (view_BN (map2 (\<lambda>cs pts. map (\<lambda>p. map (bilinear_border p) pts) cs) t G) ! b)
           = length (G ! b)"
proof -
  have lB: "length t = B" using assms(1) by (simp add: wf4_def)
  have tb: "t ! b = [t ! b ! 0]" using wf4_singleton(1) [OF assms(1,3)] .
  have "view_BN (map2 (\<lambda>cs pts. map (\<lambda>p. map (bilinear_border p) pts) cs) t G) ! b
          = concat (map (\<lambda>p. map (bilinear_border p) (G ! b)) (t ! b))"
    using lB assms by (simp add: view_BN_def)
  also have "\<dots> = map (bilinear_border (t ! b ! 0)) (G ! b)"
    by (subst tb) simp
  finally have eq: "view_BN (map2 (\<lambda>cs pts. map (\<lambda>p. map (bilinear_border p) pts) cs) t G) ! b
          = map (bilinear_border (t ! b ! 0)) (G ! b)" .
  show "view_BN (map2 (\<lambda>cs pts. map (\<lambda>p. map (bilinear_border p) pts) cs) t G) ! b ! n
           = bilinear_border (t ! b ! 0) (G ! b ! n)"
    using eq assms(4) by simp
  show "length (view_BN (map2 (\<lambda>cs pts. map (\<lambda>p. map (bilinear_border p) pts) cs) t G) ! b)
           = length (G ! b)"
    using eq by simp
qed

lemma sample_row:
  assumes "wf4 B 1 H W t" "length G = B" "b < B"
  shows "view_BN (map2 (\<lambda>cs pts. map (\<lambda>p. map (bilinear_border p) pts) cs) t G) ! b
           = map (bilinear_border (t ! b ! 0)) (G ! b)"
proof -
  have lB: "length t = B" using assms(1) by (simp add: wf4_def)
  have tb: "t ! b = [t ! b ! 0]" using wf4_singleton(1) [OF assms(1,3)] .
  have "view_BN (map2 (\<lambda>cs pts. map (\<lambda>p. map (bilinear_border p) pts) cs) t G) ! b
          = concat (map (\<lambda>p. map (bilinear_border p) (G ! b)) (t ! b))"
    using lB assms by (simp add: view_BN_def)
  also have "\<dots> = map (bilinear_border (t ! b ! 0)) (G ! b)"
    by (subst tb) simp
  finally show ?thesis .
qed

section \<open>Failing calls\<close>

lemma get_gradients_mismatch_wf:
  assumes wf: "wf4 B 1 H W sdf" and pos: "0 < H" "0 < W" and ne: "length trajs \<noteq> B"
  shows "get_gradients self sdf trajs = Inl (RuntimeError F_grid_sample)"
proof -
  have lB: "length sdf = B" using wf by (simp add: wf4_def)
  show ?thesis
    using lB ne
    by (simp add: get_gradients_def pad_replicate_wf [OF wf pos] conv2d_wf [OF wf]
                  grid_sample_def metric_to_grid_def Let_def)
qed

lemma get_gradients_mismatch:
  assumes "length sdf \<noteq> length trajs"
  shows "\<exists>c. get_gradients self sdf trajs = Inl (RuntimeError c)"
proof -
  have e: "\<exists>c. e = RuntimeError c" for e :: error by (cases e) simp
  have g: "grid_sample sdf (metric_to_grid self trajs (shape_H sdf) (shape_W sdf))
             = Inl (RuntimeError F_grid_sample)"
    using assms by (simp add: grid_sample_def metric_to_grid_def)
  show ?thesis
    using e by (auto simp: get_gradients_def Let_def g split: sum.splits)
qed

lemma compute_sdf_call_Inl:
  "compute_sdf_call dt' self semantics threshold = Inl e \<longleftrightarrow>
     dt' (drivable_mask semantics threshold) = Inl e
     \<or> (\<exists>d. dt' (drivable_mask semantics threshold) = Inr d)
        \<and> dt' (non_drivable_mask semantics threshold) = Inl e"
  by (auto simp: compute_sdf_call_def Let_def split: sum.splits)

lemma compute_sdf_call_Inr:
  assumes "dt' (drivable_mask semantics threshold) = Inr (dt (drivable_mask semantics threshold))"
    and "dt' (non_drivable_mask semantics threshold) = Inr (dt (non_drivable_mask semantics threshold))"
  shows "compute_sdf_call dt' self semantics threshold = Inr (compute_sdf dt self semantics threshold)"
  using assms by (simp add: compute_sdf_call_def compute_sdf_def signed_field_def Let_def)

section \<open>The convolved maps are the Sobel differences\<close>

lemma clamp_index: "0 < H \<Longrightarrow> nat (max 0 (min (int a - 1) (int H - 1))) = min (a - 1) (H - 1)"
  by (simp add: min_def max_def) linarith

lemma pad_plane_edge_cell:
  assumes "wf_plane H W p" "0 < H" "0 < W" "a < H + 2" "b < W + 2"
  shows "pad_plane p ! a ! b = edge_cell p (int a - 1) (int b - 1)"
proof -
  have "length p = H" "plane_W p = W"
    using assms(1) plane_W_wf [OF assms(1,2)] by (simp_all add: wf_plane_def)
  then show ?thesis
    using pad_plane_nth [OF assms] clamp_index [OF assms(2), of a] clamp_index [OF assms(3), of b]
    by (simp add: edge_cell_def)
qed

lemma conv_pad_nth:
  assumes wf: "wf_plane H W p" and pos: "0 < H" "0 < W" and ij: "i < H" "j < W"
  shows "conv_plane k (pad_plane p) ! i ! j =
     edge_cell p (int i - 1) (int j - 1) * k ! 0 ! 0 + edge_cell p (int i - 1) (int j) * k ! 0 ! 1
   + edge_cell p (int i - 1) (int j + 1) * k ! 0 ! 2
   + edge_cell p (int i) (int j - 1) * k ! 1 ! 0 + edge_cell p (int i) (int j) * k ! 1 ! 1
   + edge_cell p (int i) (int j + 1) * k ! 1 ! 2
   + edge_cell p (int i + 1) (int j - 1) * k ! 2 ! 0 + edge_cell p (int i + 1) (int j) * k ! 2 ! 1
   + edge_cell p (int i + 1) (int j + 1) * k ! 2 ! 2"
proof -
  have e: "pad_plane p ! (i + u) ! (j + v) = edge_cell p (int i + int u - 1) (int j + int v - 1)"
    if "u < 3" "v < 3" for u v
    using pad_plane_edge_cell [OF wf pos, of "i + u" "j + v"] ij that by simp
  have u3: "[0..<3] = [0, 1, 2]" by (simp add: upt_rec)
  show ?thesis
    by (simp add: conv_plane_nth [OF wf_pad_plane [OF wf pos(1)] ij] u3
          e [of 0 0, simplified] e [of 0 1, simplified] e [of 0 2, simplified]
          e [of 1 0, simplified] e [of 1 1, simplified] e [of 1 2, simplified]
          e [of 2 0, simplified] e [of 2 1, simplified] e [of 2 2, simplified] add.commute)
qed

lemma sobel_y_row_gradient:
  assumes "wf_plane H W p" "0 < H" "0 < W" "i < H" "j < W"
  shows "conv_plane sobel_y (pad_plane p) ! i ! j = row_gradient p (int i) (int j)"
  by (simp add: conv_pad_nth [OF assms] sobel_y_def row_gradient_def)

lemma sobel_x_col_gradient:
  assumes "wf_plane H W p" "0 < H" "0 < W" "i < H" "j < W"
  shows "conv_plane sobel_x (pad_plane p) ! i ! j = col_gradient p (int i) (int j)"
  by (simp add: conv_pad_nth [OF assms] sobel_x_def col_gradient_def)

lemma sobel_kernels:
  "sobel_x = [[-1/8, 0, 1/8], [-2/8, 0, 2/8], [-1/8, 0, 1/8]]"
  "sobel_y = [[-1/8, -2/8, -1/8], [0, 0, 0], [1/8, 2/8, 1/8]]"
  "sum_list (concat sobel_x) = 0" "sum_list (concat sobel_y) = 0"
  by (simp_all add: sobel_x_def sobel_y_def)

section \<open>Bilinear sampling stays within the sampled values\<close>

lemma convex_term:
  fixes a A m M :: real
  assumes "0 \<le> a" "a = 0 \<or> (m \<le> A \<and> A \<le> M)"
  shows "m * a \<le> A * a \<and> A * a \<le> M * a"
  using assms by (auto intro: mult_right_mono)

lemma convex4:
  fixes a b c d :: real
  assumes "0 \<le> a" "0 \<le> b" "0 \<le> c" "0 \<le> d" "a + b + c + d = 1"
    and "a = 0 \<or> (m \<le> A \<and> A \<le> M)" "b = 0 \<or> (m \<le> B \<and> B \<le> M)"
    and "c = 0 \<or> (m \<le> C \<and> C \<le> M)" "d = 0 \<or> (m \<le> D \<and> D \<le> M)"
  shows "m \<le> A * a + B * b + C * c + D * d \<and> A * a + B * b + C * c + D * d \<le> M"
proof -
  note t = convex_term [OF assms(1) assms(6)] convex_term [OF assms(2) assms(7)]
           convex_term [OF assms(3) assms(8)] convex_term [OF assms(4) assms(9)]
  have "m * (a + b + c + d) \<le> A * a + B * b + C * c + D * d"
    using t by (simp add: algebra_simps)
  moreover have "A * a + B * b + C * c + D * d \<le> M * (a + b + c + d)"
    using t by (simp add: algebra_simps)
  ultimately show ?thesis using assms(5) by simp
qed

lemma clip_coordinates_range:
  assumes "0 < n"
  shows "0 \<le> clip_coordinates c n" "clip_coordinates c n \<le> real n - 1"
  using assms by (auto simp: clip_coordinates_def)

lemma floor_frac_facts:
  fixes x :: real
  assumes "0 \<le> x" "x \<le> real n - 1"
  shows "0 \<le> \<lfloor>x\<rfloor>" "\<lfloor>x\<rfloor> < int n" "0 \<le> x - real_of_int \<lfloor>x\<rfloor>"
    "0 \<le> real_of_int (\<lfloor>x\<rfloor> + 1) - x"
    "x - real_of_int \<lfloor>x\<rfloor> = 0 \<or> \<lfloor>x\<rfloor> + 1 < int n"
proof -
  show "0 \<le> \<lfloor>x\<rfloor>" using assms by simp
  show "\<lfloor>x\<rfloor> < int n" using assms by (simp add: floor_less_iff)
  show "0 \<le> x - real_of_int \<lfloor>x\<rfloor>" by simp
  show "0 \<le> real_of_int (\<lfloor>x\<rfloor> + 1) - x" by linarith
  show "x - real_of_int \<lfloor>x\<rfloor> = 0 \<or> \<lfloor>x\<rfloor> + 1 < int n"
  proof (cases "\<lfloor>x\<rfloor> + 1 < int n")
    case True then show ?thesis by simp
  next
    case False
    then have "real n - 1 \<le> real_of_int \<lfloor>x\<rfloor>" by linarith
    moreover have "real_of_int \<lfloor>x\<rfloor> \<le> x" by simp
    ultimately have "x = real_of_int \<lfloor>x\<rfloor>" using assms by linarith
    then show ?thesis by simp
  qed
qed

lemma cell_in_range:
  assumes wf: "wf_plane H W p" and pos: "0 < H"
    and iy: "0 \<le> iy" "iy < int H" and ix: "0 \<le> ix" "ix < int W"
    and bnd: "\<forall>v\<in>set (concat p). m \<le> v \<and> v \<le> M"
  shows "m \<le> cell p iy ix \<and> cell p iy ix \<le> M"
proof -
  have lp: "length p = H" using wf by (simp add: wf_plane_def)
  have W: "plane_W p = W" using plane_W_wf [OF wf pos] .
  have r: "nat iy < length p" using iy lp by simp
  have "length (p ! nat iy) = W" using wf_plane_nth [OF wf] r lp by simp
  then have c: "nat ix < length (p ! nat iy)" using ix by simp
  have "p ! nat iy \<in> set p" using r by simp
  moreover have "p ! nat iy ! nat ix \<in> set (p ! nat iy)" using c by simp
  ultimately have "p ! nat iy ! nat ix \<in> set (concat p)" by auto
  moreover have "cell p iy ix = p ! nat iy ! nat ix"
    using iy ix lp W by (simp add: cell_def)
  ultimately show ?thesis using bnd by auto
qed

lemma bilinear_border_range:
  assumes wf: "wf_plane H W p" and pos: "0 < H" "0 < W"
    and bnd: "\<forall>v\<in>set (concat p). m \<le> v \<and> v \<le> M"
  shows "m \<le> bilinear_border p g \<and> bilinear_border p g \<le> M"
proof -
  have lp: "length p = H" using wf by (simp add: wf_plane_def)
  have Wp: "plane_W p = W" using plane_W_wf [OF wf pos(1)] .
  define ix where "ix = clip_coordinates (unnormalize (fst g) W) W"
  define iy where "iy = clip_coordinates (unnormalize (snd g) H) H"
  define x0 where "x0 = \<lfloor>ix\<rfloor>"
  define y0 where "y0 = \<lfloor>iy\<rfloor>"
  define fx where "fx = ix - real_of_int x0"
  define fy where "fy = iy - real_of_int y0"
  define gx where "gx = real_of_int (x0 + 1) - ix"
  define gy where "gy = real_of_int (y0 + 1) - iy"
  note fx = floor_frac_facts [OF clip_coordinates_range [OF pos(2), of "unnormalize (fst g) W"],
      folded ix_def, folded x0_def, folded fx_def gx_def]
  note fy = floor_frac_facts [OF clip_coordinates_range [OF pos(1), of "unnormalize (snd g) H"],
      folded iy_def, folded y0_def, folded fy_def gy_def]
  have eq: "bilinear_border p g =
      cell p y0 x0 * (gx * gy) + cell p y0 (x0 + 1) * (fx * gy)
    + cell p (y0 + 1) x0 * (gx * fy) + cell p (y0 + 1) (x0 + 1) * (fx * fy)"
    by (simp add: bilinear_border_def Let_def lp Wp ix_def iy_def x0_def y0_def fx_def fy_def
                  gx_def gy_def)
  have sum1: "gx * gy + fx * gy + gx * fy + fx * fy = 1"
  proof -
    have "gx + fx = 1" "gy + fy = 1" by (simp_all add: gx_def fx_def gy_def fy_def)
    then have "(gx + fx) * (gy + fy) = 1" by simp
    then show ?thesis by (simp add: algebra_simps)
  qed
  have c00: "m \<le> cell p y0 x0 \<and> cell p y0 x0 \<le> M"
    using cell_in_range [OF wf pos(1) fy(1,2) fx(1,2) bnd] .
  have c01: "fx * gy = 0 \<or> (m \<le> cell p y0 (x0 + 1) \<and> cell p y0 (x0 + 1) \<le> M)"
  proof (cases "fx = 0")
    case True then show ?thesis by simp
  next
    case False
    then have "x0 + 1 < int W" using fx(5) by simp
    then show ?thesis using cell_in_range [OF wf pos(1) fy(1,2) _ _ bnd, of "x0 + 1"] fx(1) by simp
  qed
  have c10: "gx * fy = 0 \<or> (m \<le> cell p (y0 + 1) x0 \<and> cell p (y0 + 1) x0 \<le> M)"
  proof (cases "fy = 0")
    case True then show ?thesis by simp
  next
    case False
    then have "y0 + 1 < int H" using fy(5) by simp
    then show ?thesis using cell_in_range [OF wf pos(1) _ _ fx(1,2) bnd, of "y0 + 1"] fy(1) by simp
  qed
  have c11: "fx * fy = 0 \<or> (m \<le> cell p (y0 + 1) (x0 + 1) \<and> cell p (y0 + 1) (x0 + 1) \<le> M)"
  proof (cases "fx = 0 \<or> fy = 0")
    case True then show ?thesis by auto
  next
    case False
    then have "y0 + 1 < int H" "x0 + 1 < int W" using fy(5) fx(5) by simp_all
    then show ?thesis
      using cell_in_range [OF wf pos(1) _ _ _ _ bnd, of "y0 + 1" "x0 + 1"] fy(1) fx(1) by simp
  qed
  have nn: "0 \<le> gx * gy" "0 \<le> fx * gy" "0 \<le> gx * fy" "0 \<le> fx * fy"
    using fx(3,4) fy(3,4) by simp_all
  show ?thesis
    unfolding eq
    by (rule convex4 [OF nn sum1]) (use c00 c01 c10 c11 in simp_all)
qed

section \<open>Bilinear sampling in float32\<close>

lemma fl32_approx:
  assumes "\<bar>y\<bar> \<le> Y"
  shows "\<bar>fl32 y - y\<bar> \<le> Y / 2 ^ 24 + 1 / 2 ^ 150"
proof -
  have "\<bar>y\<bar> / 2 ^ 24 \<le> Y / 2 ^ 24" using assms by (simp add: divide_right_mono)
  with fl32_error [of y] show ?thesis by linarith
qed

lemma fl32_unit:
  assumes "0 \<le> a" "a \<le> 1"
  shows "\<bar>fl32 a - a\<bar> \<le> 1 / 2 ^ 23" "\<bar>fl32 a\<bar> \<le> 2"
proof -
  have "\<bar>a\<bar> \<le> 1" using assms by simp
  from fl32_approx [OF this] have "\<bar>fl32 a - a\<bar> \<le> 1 / 2 ^ 24 + 1 / 2 ^ 150" .
  moreover have "(1::real) / 2 ^ 24 + 1 / 2 ^ 150 \<le> 1 / 2 ^ 23" by simp
  ultimately show "\<bar>fl32 a - a\<bar> \<le> 1 / 2 ^ 23" by linarith
  moreover have "(1::real) / 2 ^ 23 \<le> 1" by simp
  ultimately show "\<bar>fl32 a\<bar> \<le> 2" using assms by linarith
qed

lemma weight32:
  assumes "0 \<le> a" "a \<le> 1" "0 \<le> b" "b \<le> 1"
  shows "\<bar>fl32 (fl32 a * fl32 b) - a * b\<bar> \<le> 1 / 2 ^ 20"
proof -
  define A where "A = fl32 a"
  define B where "B = fl32 b"
  note ea = fl32_unit [OF assms(1,2), folded A_def]
  note eb = fl32_unit [OF assms(3,4), folded B_def]
  have "\<bar>(A - a) * B\<bar> \<le> (1 / 2 ^ 23) * 2"
    unfolding abs_mult using ea(1) eb(2) by (intro mult_mono) simp_all
  moreover have "\<bar>a * (B - b)\<bar> \<le> 1 * (1 / 2 ^ 23)"
    unfolding abs_mult using assms(1,2) eb(1) by (intro mult_mono) simp_all
  moreover have "A * B - a * b = (A - a) * B + a * (B - b)" by (simp add: algebra_simps)
  ultimately have d: "\<bar>A * B - a * b\<bar> \<le> 3 / 2 ^ 23" by linarith
  have "0 \<le> a * b" "a * b \<le> 1" using assms by (simp_all add: mult_le_one)
  moreover have "(3::real) / 2 ^ 23 \<le> 1" by simp
  ultimately have "\<bar>A * B\<bar> \<le> 2" using d by linarith
  from fl32_approx [OF this] have "\<bar>fl32 (A * B) - A * B\<bar> \<le> 2 / 2 ^ 24 + 1 / 2 ^ 150" .
  moreover have "(3::real) / 2 ^ 23 + (2 / 2 ^ 24 + 1 / 2 ^ 150) \<le> 1 / 2 ^ 20" by simp
  ultimately have "\<bar>fl32 (A * B) - a * b\<bar> \<le> 1 / 2 ^ 20" using d by linarith
  then show ?thesis by (simp only: A_def B_def)
qed

lemma term32:
  assumes "\<bar>v\<bar> \<le> A" "\<bar>Wt - w\<bar> \<le> 1 / 2 ^ 20" "0 \<le> w" "w \<le> 1"
  shows "\<bar>fl32 (v * Wt) - v * w\<bar> \<le> A / 2 ^ 19 + 1 / 2 ^ 150"
proof -
  have A0: "0 \<le> A" using assms(1) by simp
  have "(1::real) / 2 ^ 20 \<le> 1" by simp
  then have W2: "\<bar>Wt\<bar> \<le> 2" using assms(2,3,4) by linarith
  have "\<bar>v * Wt\<bar> \<le> A * 2"
    unfolding abs_mult using assms(1) W2 A0 by (intro mult_mono) simp_all
  from fl32_approx [OF this]
  have r: "\<bar>fl32 (v * Wt) - v * Wt\<bar> \<le> A * 2 / 2 ^ 24 + 1 / 2 ^ 150" .
  have "\<bar>v * (Wt - w)\<bar> \<le> A * (1 / 2 ^ 20)"
    unfolding abs_mult using assms(1,2) A0 by (intro mult_mono) simp_all
  moreover have "v * Wt - v * w = v * (Wt - w)" by (simp add: algebra_simps)
  ultimately have "\<bar>v * Wt - v * w\<bar> \<le> A * (1 / 2 ^ 20)" by linarith
  moreover have "A * 2 / 2 ^ 24 + A * (1 / 2 ^ 20) \<le> A / 2 ^ 19" using A0 by simp
  ultimately show ?thesis using r by linarith
qed

lemma sum32:
  assumes "\<bar>S - X\<bar> \<le> d" "\<bar>t - x\<bar> \<le> e" "\<bar>X + x\<bar> \<le> A"
  shows "\<bar>fl32 (S + t) - (X + x)\<bar> \<le> d + e + (A + d + e) / 2 ^ 24 + 1 / 2 ^ 150"
proof -
  have "\<bar>S + t\<bar> \<le> A + d + e" using assms by linarith
  from fl32_approx [OF this]
  have "\<bar>fl32 (S + t) - (S + t)\<bar> \<le> (A + d + e) / 2 ^ 24 + 1 / 2 ^ 150" .
  with assms(1,2) show ?thesis by linarith
qed

lemma four_terms32:
  assumes A0: "0 \<le> A"
    and t: "\<bar>t1 - x1\<bar> \<le> A / 2 ^ 19 + 1 / 2 ^ 150" "\<bar>t2 - x2\<bar> \<le> A / 2 ^ 19 + 1 / 2 ^ 150"
           "\<bar>t3 - x3\<bar> \<le> A / 2 ^ 19 + 1 / 2 ^ 150" "\<bar>t4 - x4\<bar> \<le> A / 2 ^ 19 + 1 / 2 ^ 150"
    and X: "\<bar>x1 + x2\<bar> \<le> A" "\<bar>x1 + x2 + x3\<bar> \<le> A" "\<bar>x1 + x2 + x3 + x4\<bar> \<le> A"
  shows "\<bar>fl32 (fl32 (fl32 (t1 + t2) + t3) + t4) - (x1 + x2 + x3 + x4)\<bar>
           \<le> A / 2 ^ 16 + 1 / 2 ^ 146"
proof -
  define e where "e = A / 2 ^ 19 + 1 / 2 ^ 150"
  define d2 where "d2 = e + e + (A + e + e) / 2 ^ 24 + 1 / 2 ^ 150"
  define d3 where "d3 = d2 + e + (A + d2 + e) / 2 ^ 24 + 1 / 2 ^ 150"
  define d4 where "d4 = d3 + e + (A + d3 + e) / 2 ^ 24 + 1 / 2 ^ 150"
  have s2: "\<bar>fl32 (t1 + t2) - (x1 + x2)\<bar> \<le> d2"
    unfolding d2_def by (rule sum32 [OF t(1,2) [folded e_def] X(1)])
  have s3: "\<bar>fl32 (fl32 (t1 + t2) + t3) - (x1 + x2 + x3)\<bar> \<le> d3"
    unfolding d3_def by (rule sum32 [OF s2 t(3) [folded e_def] X(2)])
  have s4: "\<bar>fl32 (fl32 (fl32 (t1 + t2) + t3) + t4) - (x1 + x2 + x3 + x4)\<bar> \<le> d4"
    unfolding d4_def by (rule sum32 [OF s3 t(4) [folded e_def] X(3)])
  have "d4 \<le> A / 2 ^ 16 + 1 / 2 ^ 146"
    using A0 unfolding d4_def d3_def d2_def e_def by (simp add: field_simps)
  with s4 show ?thesis by linarith
qed

lemma cell_abs:
  assumes wf: "wf_plane H W p" and pos: "0 < H"
    and bnd: "\<forall>v\<in>set (concat p). m \<le> v \<and> v \<le> M"
  shows "\<bar>cell p iy ix\<bar> \<le> max \<bar>m\<bar> \<bar>M\<bar>"
proof (cases "0 \<le> iy \<and> iy < int H \<and> 0 \<le> ix \<and> ix < int W")
  case True
  then have "m \<le> cell p iy ix \<and> cell p iy ix \<le> M"
    using cell_in_range [OF wf pos _ _ _ _ bnd] by blast
  then show ?thesis by linarith
next
  case False
  have "length p = H" "plane_W p = W"
    using wf plane_W_wf [OF wf pos] by (simp_all add: wf_plane_def)
  with False have "cell p iy ix = 0" by (auto simp: cell_def)
  then show ?thesis by simp
qed

lemma interp_range:
  assumes wf: "wf_plane H W p" and pos: "0 < H" "0 < W"
    and bnd: "\<forall>v\<in>set (concat p). m \<le> v \<and> v \<le> M"
    and ix: "0 \<le> ix" "ix \<le> real W - 1" and iy: "0 \<le> iy" "iy \<le> real H - 1"
  shows "m \<le> cell p \<lfloor>iy\<rfloor> \<lfloor>ix\<rfloor> * ((real_of_int (\<lfloor>ix\<rfloor> + 1) - ix) * (real_of_int (\<lfloor>iy\<rfloor> + 1) - iy))
             + cell p \<lfloor>iy\<rfloor> (\<lfloor>ix\<rfloor> + 1) * ((ix - real_of_int \<lfloor>ix\<rfloor>) * (real_of_int (\<lfloor>iy\<rfloor> + 1) - iy))
             + cell p (\<lfloor>iy\<rfloor> + 1) \<lfloor>ix\<rfloor> * ((real_of_int (\<lfloor>ix\<rfloor> + 1) - ix) * (iy - real_of_int \<lfloor>iy\<rfloor>))
             + cell p (\<lfloor>iy\<rfloor> + 1) (\<lfloor>ix\<rfloor> + 1) * ((ix - real_of_int \<lfloor>ix\<rfloor>) * (iy - real_of_int \<lfloor>iy\<rfloor>))
       \<and> cell p \<lfloor>iy\<rfloor> \<lfloor>ix\<rfloor> * ((real_of_int (\<lfloor>ix\<rfloor> + 1) - ix) * (real_of_int (\<lfloor>iy\<rfloor> + 1) - iy))
             + cell p \<lfloor>iy\<rfloor> (\<lfloor>ix\<rfloor> + 1) * ((ix - real_of_int \<lfloor>ix\<rfloor>) * (real_of_int (\<lfloor>iy\<rfloor> + 1) - iy))
             + cell p (\<lfloor>iy\<rfloor> + 1) \<lfloor>ix\<rfloor> * ((real_of_int (\<lfloor>ix\<rfloor> + 1) - ix) * (iy - real_of_int \<lfloor>iy\<rfloor>))
             + cell p (\<lfloor>iy\<rfloor> + 1) (\<lfloor>ix\<rfloor> + 1) * ((ix - real_of_int \<lfloor>ix\<rfloor>) * (iy - real_of_int \<lfloor>iy\<rfloor>))
           \<le> M"
proof -
  define x0 where "x0 = \<lfloor>ix\<rfloor>"
  define y0 where "y0 = \<lfloor>iy\<rfloor>"
  define fx where "fx = ix - real_of_int x0"
  define fy where "fy = iy - real_of_int y0"
  define gx where "gx = real_of_int (x0 + 1) - ix"
  define gy where "gy = real_of_int (y0 + 1) - iy"
  note fx = floor_frac_facts [OF ix, folded x0_def, folded fx_def gx_def]
  note fy = floor_frac_facts [OF iy, folded y0_def, folded fy_def gy_def]
  have sum1: "gx * gy + fx * gy + gx * fy + fx * fy = 1"
  proof -
    have "gx + fx = 1" "gy + fy = 1" by (simp_all add: gx_def fx_def gy_def fy_def)
    then have "(gx + fx) * (gy + fy) = 1" by simp
    then show ?thesis by (simp add: algebra_simps)
  qed
  have c00: "m \<le> cell p y0 x0 \<and> cell p y0 x0 \<le> M"
    using cell_in_range [OF wf pos(1) fy(1,2) fx(1,2) bnd] .
  have c01: "fx * gy = 0 \<or> (m \<le> cell p y0 (x0 + 1) \<and> cell p y0 (x0 + 1) \<le> M)"
  proof (cases "fx = 0")
    case True then show ?thesis by simp
  next
    case False
    then have "x0 + 1 < int W" using fx(5) by simp
    then show ?thesis using cell_in_range [OF wf pos(1) fy(1,2) _ _ bnd, of "x0 + 1"] fx(1) by simp
  qed
  have c10: "gx * fy = 0 \<or> (m \<le> cell p (y0 + 1) x0 \<and> cell p (y0 + 1) x0 \<le> M)"
  proof (cases "fy = 0")
    case True then show ?thesis by simp
  next
    case False
    then have "y0 + 1 < int H" using fy(5) by simp
    then show ?thesis using cell_in_range [OF wf pos(1) _ _ fx(1,2) bnd, of "y0 + 1"] fy(1) by simp
  qed
  have c11: "fx * fy = 0 \<or> (m \<le> cell p (y0 + 1) (x0 + 1) \<and> cell p (y0 + 1) (x0 + 1) \<le> M)"
  proof (cases "fx = 0 \<or> fy = 0")
    case True then show ?thesis by auto
  next
    case False
    then have "y0 + 1 < int H" "x0 + 1 < int W" using fy(5) fx(5) by simp_all
    then show ?thesis
      using cell_in_range [OF wf pos(1) _ _ _ _ bnd, of "y0 + 1" "x0 + 1"] fy(1) fx(1) by simp
  qed
  have nn: "0 \<le> gx * gy" "0 \<le> fx * gy" "0 \<le> gx * fy" "0 \<le> fx * fy"
    using fx(3,4) fy(3,4) by simp_all
  have "m \<le> cell p y0 x0 * (gx * gy) + cell p y0 (x0 + 1) * (fx * gy)
             + cell p (y0 + 1) x0 * (gx * fy) + cell p (y0 + 1) (x0 + 1) * (fx * fy)
       \<and> cell p y0 x0 * (gx * gy) + cell p y0 (x0 + 1) * (fx * gy)
             + cell p (y0 + 1) x0 * (gx * fy) + cell p (y0 + 1) (x0 + 1) * (fx * fy) \<le> M"
    by (rule convex4 [OF nn sum1]) (use c00 c01 c10 c11 in simp_all)
  then show ?thesis
    unfolding x0_def y0_def fx_def fy_def gx_def gy_def .
qed

lemma partial_sums_bound:
  fixes A :: real
  assumes v: "\<bar>v1\<bar> \<le> A" "\<bar>v2\<bar> \<le> A" "\<bar>v3\<bar> \<le> A" "\<bar>v4\<bar> \<le> A"
    and w: "0 \<le> w1" "0 \<le> w2" "0 \<le> w3" "0 \<le> w4" "w1 + w2 + w3 + w4 = 1"
  shows "\<bar>v1 * w1 + v2 * w2\<bar> \<le> A" "\<bar>v1 * w1 + v2 * w2 + v3 * w3\<bar> \<le> A"
    "\<bar>v1 * w1 + v2 * w2 + v3 * w3 + v4 * w4\<bar> \<le> A"
proof -
  have A0: "0 \<le> A" using v(1) by simp
  have b: "\<bar>v1 * w1\<bar> \<le> A * w1" "\<bar>v2 * w2\<bar> \<le> A * w2" "\<bar>v3 * w3\<bar> \<le> A * w3"
    "\<bar>v4 * w4\<bar> \<le> A * w4"
    unfolding abs_mult using v w by (simp_all add: mult_mono)
  have n: "0 \<le> A * w1" "0 \<le> A * w2" "0 \<le> A * w3" "0 \<le> A * w4"
    using A0 w by simp_all
  have "A * (w1 + w2 + w3 + w4) = A" using w(5) by simp
  then have s: "A * w1 + A * w2 + A * w3 + A * w4 = A" by (simp add: algebra_simps)
  show "\<bar>v1 * w1 + v2 * w2\<bar> \<le> A" using b n s by linarith
  show "\<bar>v1 * w1 + v2 * w2 + v3 * w3\<bar> \<le> A" using b n s by linarith
  show "\<bar>v1 * w1 + v2 * w2 + v3 * w3 + v4 * w4\<bar> \<le> A" using b n s by linarith
qed

lemma bilinear_border32_range:
  assumes wf: "wf_plane H W p" and pos: "0 < H" "0 < W"
    and bnd: "\<forall>v\<in>set (concat p). m \<le> v \<and> v \<le> M"
  shows "m - (max \<bar>m\<bar> \<bar>M\<bar> / 2 ^ 16 + 1 / 2 ^ 146) \<le> bilinear_border32 p g
       \<and> bilinear_border32 p g \<le> M + (max \<bar>m\<bar> \<bar>M\<bar> / 2 ^ 16 + 1 / 2 ^ 146)"
proof -
  have lp: "length p = H" using wf by (simp add: wf_plane_def)
  have Wp: "plane_W p = W" using plane_W_wf [OF wf pos(1)] .
  define A where "A = max \<bar>m\<bar> \<bar>M\<bar>"
  define ix where "ix = clip_coordinates (unnormalize32 (fst g) W) W"
  define iy where "iy = clip_coordinates (unnormalize32 (snd g) H) H"
  define x0 where "x0 = \<lfloor>ix\<rfloor>"
  define y0 where "y0 = \<lfloor>iy\<rfloor>"
  define fx where "fx = ix - real_of_int x0"
  define fy where "fy = iy - real_of_int y0"
  define gx where "gx = real_of_int (x0 + 1) - ix"
  define gy where "gy = real_of_int (y0 + 1) - iy"
  define v1 where "v1 = cell p y0 x0"
  define v2 where "v2 = cell p y0 (x0 + 1)"
  define v3 where "v3 = cell p (y0 + 1) x0"
  define v4 where "v4 = cell p (y0 + 1) (x0 + 1)"
  define nw where "nw = fl32 (fl32 gx * fl32 gy)"
  define ne where "ne = fl32 (fl32 fx * fl32 gy)"
  define sw where "sw = fl32 (fl32 gx * fl32 fy)"
  define se where "se = fl32 (fl32 fx * fl32 fy)"
  note cx = clip_coordinates_range [OF pos(2), of "unnormalize32 (fst g) W", folded ix_def]
  note cy = clip_coordinates_range [OF pos(1), of "unnormalize32 (snd g) H", folded iy_def]
  have ux: "0 \<le> fx" "fx \<le> 1" "0 \<le> gx" "gx \<le> 1" "gx + fx = 1"
    unfolding fx_def gx_def x0_def by linarith+
  have uy: "0 \<le> fy" "fy \<le> 1" "0 \<le> gy" "gy \<le> 1" "gy + fy = 1"
    unfolding fy_def gy_def y0_def by linarith+
  have eq: "bilinear_border32 p g =
      fl32 (fl32 (fl32 (fl32 (v1 * nw) + fl32 (v2 * ne)) + fl32 (v3 * sw)) + fl32 (v4 * se))"
    by (simp add: bilinear_border32_def Let_def lp Wp ix_def iy_def x0_def y0_def fx_def fy_def
                  gx_def gy_def v1_def v2_def v3_def v4_def nw_def ne_def sw_def se_def)
  have A0: "0 \<le> A" by (simp add: A_def)
  have v: "\<bar>v1\<bar> \<le> A" "\<bar>v2\<bar> \<le> A" "\<bar>v3\<bar> \<le> A" "\<bar>v4\<bar> \<le> A"
    unfolding v1_def v2_def v3_def v4_def A_def by (rule cell_abs [OF wf pos(1) bnd])+
  have wts: "\<bar>nw - gx * gy\<bar> \<le> 1 / 2 ^ 20" "\<bar>ne - fx * gy\<bar> \<le> 1 / 2 ^ 20"
    "\<bar>sw - gx * fy\<bar> \<le> 1 / 2 ^ 20" "\<bar>se - fx * fy\<bar> \<le> 1 / 2 ^ 20"
    unfolding nw_def ne_def sw_def se_def
    by (rule weight32 [OF ux(3,4) uy(3,4)], rule weight32 [OF ux(1,2) uy(3,4)],
        rule weight32 [OF ux(3,4) uy(1,2)], rule weight32 [OF ux(1,2) uy(1,2)])
  have om: "0 \<le> gx * gy" "gx * gy \<le> 1" "0 \<le> fx * gy" "fx * gy \<le> 1"
    "0 \<le> gx * fy" "gx * fy \<le> 1" "0 \<le> fx * fy" "fx * fy \<le> 1"
    using ux uy by (simp_all add: mult_le_one)
  have sum1: "gx * gy + fx * gy + gx * fy + fx * fy = 1"
  proof -
    have "(gx + fx) * (gy + fy) = 1" using ux(5) uy(5) by simp
    then show ?thesis by (simp add: algebra_simps)
  qed
  note t1 = term32 [OF v(1) wts(1) om(1,2)]
  note t2 = term32 [OF v(2) wts(2) om(3,4)]
  note t3 = term32 [OF v(3) wts(3) om(5,6)]
  note t4 = term32 [OF v(4) wts(4) om(7,8)]
  note ps = partial_sums_bound [OF v om(1) om(3) om(5) om(7) sum1]
  note approx = four_terms32 [OF A0 t1 t2 t3 t4 ps]
  have exact: "m \<le> v1 * (gx * gy) + v2 * (fx * gy) + v3 * (gx * fy) + v4 * (fx * fy)
       \<and> v1 * (gx * gy) + v2 * (fx * gy) + v3 * (gx * fy) + v4 * (fx * fy) \<le> M"
    using interp_range [OF wf pos bnd cx cy]
    unfolding v1_def v2_def v3_def v4_def gx_def gy_def fx_def fy_def x0_def y0_def .
  show ?thesis
    unfolding eq A_def [symmetric] using approx exact by linarith
qed

lemma exact_value_in_range:
  assumes wf: "wf4 B 1 H W sdf" and dims: "2 \<le> H" "2 \<le> W" and ps: "pixel_size self \<noteq> 0"
    and len: "length trajs = B" and b: "b < B" and n: "n < length (trajs ! b)"
  shows "\<exists>h_val h_grad. get_gradients self sdf trajs = Inr (h_val, h_grad)
           \<and> Min (set (concat (sdf ! b ! 0))) \<le> h_val ! b ! n
           \<and> h_val ! b ! n \<le> Max (set (concat (sdf ! b ! 0)))"
proof -
  have pos: "0 < H" "0 < W" using dims by simp_all
  define G where "G = metric_to_grid self trajs (shape_H sdf) (shape_W sdf)"
  have lG: "length G = B" "n < length (G ! b)"
    using len b n by (simp_all add: G_def metric_to_grid_def)
  let ?p = "sdf ! b ! 0"
  have wfp: "wf_plane H W ?p" using wf4_singleton(2) [OF wf b] .
  have fin: "finite (set (concat ?p))" by simp
  have bnd: "\<forall>v\<in>set (concat ?p). Min (set (concat ?p)) \<le> v \<and> v \<le> Max (set (concat ?p))"
    using fin by simp
  note r = bilinear_border_range [OF wfp pos bnd, of "G ! b ! n"]
  note s = sample_nth(1) [OF wf lG(1) b lG(2)]
  show ?thesis
    using r s by (simp add: get_gradients_wf [OF wf pos len] Let_def G_def)
qed

lemma view_row:
  assumes "wf4 B 1 H W t" "length G = B" "b < B"
  shows "view_BN (map2 (\<lambda>cs pts. map (\<lambda>p. map (f p) pts) cs) t G) ! b
           = map (f (t ! b ! 0)) (G ! b)"
proof -
  have lB: "length t = B" using assms(1) by (simp add: wf4_def)
  have tb: "t ! b = [t ! b ! 0]" using wf4_singleton(1) [OF assms(1,3)] .
  have "view_BN (map2 (\<lambda>cs pts. map (\<lambda>p. map (f p) pts) cs) t G) ! b
          = concat (map (\<lambda>p. map (f p) (G ! b)) (t ! b))"
    using lB assms by (simp add: view_BN_def)
  also have "\<dots> = map (f (t ! b ! 0)) (G ! b)"
    by (subst tb) simp
  finally show ?thesis .
qed

lemma h_val32_wf:
  assumes wf: "wf4 B 1 H W sdf" and pos: "0 < H" "0 < W" and len: "length trajs = B"
  shows "h_val32 self sdf trajs =
     Inr (view_BN (map2 (\<lambda>cs pts. map (\<lambda>p. map (bilinear_border32 p) pts) cs) sdf
            (map (map (metric_to_grid_point32 self (shape_H sdf) (shape_W sdf))) trajs)))"
  by (simp add: h_val32_def get_gradients_wf [OF wf pos len] Let_def)

lemma fl32_dyadic_values:
  "fl32 1 = 1" "fl32 (1/2) = 1/2" "fl32 (- (1/2)) = - (1/2)" "fl32 (3/4) = 3/4"
  "fl32 (- (1/4)) = - (1/4)" "fl32 (3/8) = 3/8" "fl32 (5/8) = 5/8" "fl32 (5/16) = 5/16"
  "fl32 (3/16) = 3/16" "fl32 (1/16) = 1/16"
proof -
  show "fl32 1 = 1"
    by (subst fl32_pos_exp [where k = 0]) (simp_all add: rne_def Let_def)
  show "fl32 (1/2) = 1/2"
    by (subst fl32_neg_exp [where k = 1]) (simp_all add: rne_def Let_def)
  show "fl32 (- (1/2)) = - (1/2)"
    by (subst fl32_neg_exp [where k = 1]) (simp_all add: rne_def Let_def)
  show "fl32 (3/4) = 3/4"
    by (subst fl32_neg_exp [where k = 1]) (simp_all add: rne_def Let_def)
  show "fl32 (- (1/4)) = - (1/4)"
    by (subst fl32_neg_exp [where k = 2]) (simp_all add: rne_def Let_def)
  show "fl32 (3/8) = 3/8"
    by (subst fl32_neg_exp [where k = 2]) (simp_all add: rne_def Let_def)
  show "fl32 (5/8) = 5/8"
    by (subst fl32_neg_exp [where k = 1]) (simp_all add: rne_def Let_def)
  show "fl32 (5/16) = 5/16"
    by (subst fl32_neg_exp [where k = 2]) (simp_all add: rne_def Let_def)
  show "fl32 (3/16) = 3/16"
    by (subst fl32_neg_exp [where k = 3]) (simp_all add: rne_def Let_def)
  show "fl32 (1/16) = 1/16"
    by (subst fl32_neg_exp [where k = 4]) (simp_all add: rne_def Let_def)
qed

lemma fl32_sample_values:
  "fl32 (67108865/2147483648) = 1/32"
  "fl32 (40265319/2147483648) = 5033165/268435456"
  "fl32 (21810381/268435456) = 5452595/67108864"
  "fl32 (26843545/268435456) = 3355443/33554432"
proof -
  show "fl32 (67108865/2147483648) = 1/32"
    by (subst fl32_neg_exp [where k = 5]) (simp_all add: rne_def Let_def)
  show "fl32 (40265319/2147483648) = 5033165/268435456"
    by (subst fl32_neg_exp [where k = 6]) (simp_all add: rne_def Let_def)
  show "fl32 (21810381/268435456) = 5452595/67108864"
    by (subst fl32_neg_exp [where k = 4]) (simp_all add: rne_def Let_def)
  show "fl32 (26843545/268435456) = 3355443/33554432"
    by (subst fl32_neg_exp [where k = 4]) (simp_all add: rne_def Let_def)
qed

lemma grid_point32_example:
  "metric_to_grid_point32 (SafetyBarrier (1/4) (5/2) 32) 2 2 (3/32, - (1/8)) = (0, - (1/4))"
  by (simp add: metric_to_grid_point32_def SafetyBarrier_def Let_def clamp_def
        fl32_quarter fl32_dyadic_values fl32_0)

lemma sample32_example:
  "bilinear_border32 [[13421773/134217728, 13421773/134217728],
                      [13421773/134217728, 13421773/134217728]] (0, - (1/4))
     = 3355443/33554432"
  by (simp add: bilinear_border32_def unnormalize32_def clip_coordinates_def plane_W_def
        cell_def Let_def fl32_dyadic_values fl32_sample_values fl32_0)

section \<open>The ego origin on a 64 x 64 grid\<close>

text \<open>
  With \<open>pixel_size\<close> 0.25 on a 64 x 64 grid, the trajectory point (forward 0, lateral 0)
  has the grid coordinate (1/63, -1), and the clearance sampled there is the sdf cell
  in row 0, column 32: forward 0 is row 0 and lateral 0 is column W / 2. For a field
  made by \<^verbatim>\<open>compute_sdf\<close> from a fully drivable mask, that cell holds the degenerate
  value of the distance transform, times \<open>pixel_size\<close>, minus \<open>ego_radius\<close>.
\<close>

lemma origin_grid_point:
  "pixel_size self = 1/4 \<Longrightarrow> metric_to_grid_point self 64 64 (0, 0) = (1/63, -1)"
  by (simp add: metric_to_grid_point_def clamp_def Let_def)

lemma origin_sample:
  assumes "wf_plane 64 64 p"
  shows "bilinear_border p (1/63, -1) = p ! 0 ! 32"
proof -
  have l: "length p = 64" "plane_W p = 64"
    using assms plane_W_wf [OF assms] by (simp_all add: wf_plane_def)
  show ?thesis
    by (simp add: bilinear_border_def Let_def l unnormalize_def clip_coordinates_def cell_def)
qed

lemma origin_samples_row0_mid_column:
  assumes wf: "wf4 B 1 64 64 sdf" and ps: "pixel_size self = 1/4"
    and len: "length trajs = B" and b: "b < B" and n: "n < length (trajs ! b)"
    and pt: "trajs ! b ! n = (0, 0)"
  shows "\<exists>h_val h_grad. get_gradients self sdf trajs = Inr (h_val, h_grad)
           \<and> h_val ! b ! n = sdf ! b ! 0 ! 0 ! 32"
proof -
  have pos: "(0::nat) < 64" by simp
  define G where "G = metric_to_grid self trajs (shape_H sdf) (shape_W sdf)"
  have Bpos: "0 < B" using b by simp
  have sh: "shape_H sdf = 64" "shape_W sdf = 64"
    using shape_wf4 [OF wf Bpos _ pos] by simp_all
  have lG: "length G = B" "n < length (G ! b)"
    using len b n by (simp_all add: G_def metric_to_grid_def)
  have Gbn: "G ! b ! n = (1/63, -1)"
    using len b n pt origin_grid_point [OF ps] by (simp add: G_def metric_to_grid_def sh)
  note wfp = wf4_singleton(2) [OF wf b]
  note s = sample_nth(1) [OF wf lG(1) b lG(2)]
  show ?thesis
    using s origin_sample [OF wfp] Gbn
    by (simp add: get_gradients_wf [OF wf pos pos len] Let_def G_def)
qed

section \<open>Gradients: Sobel estimate, sampling, swap and rescaling\<close>

text \<open>
  C3. For an sdf of shape [B, 1, H, W] and trajectories [B, N, 2], \<^verbatim>\<open>get_gradients\<close>
  returns gradients of shape [B, N, 2]. The two maps it samples are the convolutions of
  the edge-replicated sdf with the fixed kernels \<open>sobel_y\<close> and \<open>sobel_x\<close>, whose
  weights sum to zero and carry the factor 1/8: at every cell they are the Sobel
  difference across rows and across columns of the sdf read with edge replication.
  The first (forward) component of a returned gradient is the bilinear sample of the
  row-axis map, the second (lateral) component the sample of the column-axis map, both
  taken at the point's grid coordinate and divided by \<open>pixel_size\<close>. The grid has at
  least two rows and two columns and \<open>pixel_size\<close> is not zero, so that no division is
  by zero.
\<close>

theorem get_gradients_sobel_swapped:
  assumes wf: "wf4 B 1 H W sdf" and dims: "2 \<le> H" "2 \<le> W" and ps: "pixel_size self \<noteq> 0"
    and len: "length trajs = B"
  shows "\<exists>h_val h_grad. get_gradients self sdf trajs = Inr (h_val, h_grad)
      \<and> length h_grad = B
      \<and> (\<forall>b<B. length (h_grad ! b) = length (trajs ! b)
           \<and> wf_plane H W (conv_plane sobel_y (pad_plane (sdf ! b ! 0)))
           \<and> wf_plane H W (conv_plane sobel_x (pad_plane (sdf ! b ! 0)))
           \<and> (\<forall>i<H. \<forall>j<W.
                 conv_plane sobel_y (pad_plane (sdf ! b ! 0)) ! i ! j
                   = row_gradient (sdf ! b ! 0) (int i) (int j)
               \<and> conv_plane sobel_x (pad_plane (sdf ! b ! 0)) ! i ! j
                   = col_gradient (sdf ! b ! 0) (int i) (int j))
           \<and> (\<forall>n<length (trajs ! b).
                 h_grad ! b ! n =
                   (bilinear_border (conv_plane sobel_y (pad_plane (sdf ! b ! 0)))
                      (metric_to_grid_point self H W (trajs ! b ! n)) / pixel_size self,
                    bilinear_border (conv_plane sobel_x (pad_plane (sdf ! b ! 0)))
                      (metric_to_grid_point self H W (trajs ! b ! n)) / pixel_size self)))
      \<and> sobel_x = [[-1/8, 0, 1/8], [-2/8, 0, 2/8], [-1/8, 0, 1/8]]
      \<and> sobel_y = [[-1/8, -2/8, -1/8], [0, 0, 0], [1/8, 2/8, 1/8]]
      \<and> sum_list (concat sobel_x) = 0 \<and> sum_list (concat sobel_y) = 0"
proof -
  have pos: "0 < H" "0 < W" using dims by simp_all
  define G where "G = metric_to_grid self trajs (shape_H sdf) (shape_W sdf)"
  define gx where "gx = map (map (\<lambda>p. conv_plane sobel_x (pad_plane p))) sdf"
  define gy where "gy = map (map (\<lambda>p. conv_plane sobel_y (pad_plane p))) sdf"
  define sample where
    "sample = (\<lambda>t. view_BN (map2 (\<lambda>cs pts. map (\<lambda>p. map (bilinear_border p) pts) cs) t G))"
  define h_grad where
    "h_grad = map2 (map2 Pair) (map (map (\<lambda>g. g / pixel_size self)) (sample gy))
                               (map (map (\<lambda>g. g / pixel_size self)) (sample gx))"
  have lB: "length sdf = B" using wf by (simp add: wf4_def)
  have lG: "length G = B" using len by (simp add: G_def metric_to_grid_def)
  have run: "get_gradients self sdf trajs = Inr (sample sdf, h_grad)"
    by (simp add: get_gradients_wf [OF wf pos len] Let_def G_def gx_def gy_def sample_def
                  h_grad_def)
  have wfx: "wf4 B 1 H W gx" and wfy: "wf4 B 1 H W gy"
    using wf pos
    by (auto simp: gx_def gy_def wf4_def list_all_iff intro!: wf_conv_plane wf_pad_plane)
  have lsx: "length (sample gx) = B" and lsy: "length (sample gy) = B"
    using wfx wfy lG by (simp_all add: sample_def view_BN_def wf4_def)
  have lh: "length h_grad = B" using lsx lsy by (simp add: h_grad_def)
  have per: "length (h_grad ! b) = length (trajs ! b)
           \<and> wf_plane H W (conv_plane sobel_y (pad_plane (sdf ! b ! 0)))
           \<and> wf_plane H W (conv_plane sobel_x (pad_plane (sdf ! b ! 0)))
           \<and> (\<forall>i<H. \<forall>j<W.
                 conv_plane sobel_y (pad_plane (sdf ! b ! 0)) ! i ! j
                   = row_gradient (sdf ! b ! 0) (int i) (int j)
               \<and> conv_plane sobel_x (pad_plane (sdf ! b ! 0)) ! i ! j
                   = col_gradient (sdf ! b ! 0) (int i) (int j))
           \<and> (\<forall>n<length (trajs ! b).
                 h_grad ! b ! n =
                   (bilinear_border (conv_plane sobel_y (pad_plane (sdf ! b ! 0)))
                      (metric_to_grid_point self H W (trajs ! b ! n)) / pixel_size self,
                    bilinear_border (conv_plane sobel_x (pad_plane (sdf ! b ! 0)))
                      (metric_to_grid_point self H W (trajs ! b ! n)) / pixel_size self))"
    if b: "b < B" for b
  proof -
    let ?p = "sdf ! b ! 0"
    have wfp: "wf_plane H W ?p" using wf4_singleton(2) [OF wf b] .
    have sb: "sdf ! b = [?p]" using wf4_singleton(1) [OF wf b] .
    have Bpos: "0 < B" using b by simp
    have sh: "shape_H sdf = H" "shape_W sdf = W"
      using shape_wf4 [OF wf Bpos _ pos(1)] by simp_all
    have Gb: "G ! b = map (metric_to_grid_point self H W) (trajs ! b)"
      using b len by (simp add: G_def metric_to_grid_def sh)
    have gxb: "gx ! b ! 0 = conv_plane sobel_x (pad_plane ?p)"
      and gyb: "gy ! b ! 0 = conv_plane sobel_y (pad_plane ?p)"
    proof -
      have l1: "0 < length (sdf ! b)" by (subst sb) simp
      show "gx ! b ! 0 = conv_plane sobel_x (pad_plane ?p)"
        using b lB l1 by (simp add: gx_def)
      show "gy ! b ! 0 = conv_plane sobel_y (pad_plane ?p)"
        using b lB l1 by (simp add: gy_def)
    qed
    have sx: "sample gx ! b = map (bilinear_border (gx ! b ! 0)) (G ! b)"
      using sample_row [OF wfx lG b] by (simp add: sample_def)
    have sy: "sample gy ! b = map (bilinear_border (gy ! b ! 0)) (G ! b)"
      using sample_row [OF wfy lG b] by (simp add: sample_def)
    have hb: "h_grad ! b = map (\<lambda>t. (bilinear_border (gy ! b ! 0) (metric_to_grid_point self H W t) / pixel_size self,
                                     bilinear_border (gx ! b ! 0) (metric_to_grid_point self H W t) / pixel_size self))
                              (trajs ! b)"
      using b lsx lsy
      by (simp add: h_grad_def sx sy Gb zip_map_map zip_same_conv_map comp_def)
    have g: "\<forall>i<H. \<forall>j<W.
                 conv_plane sobel_y (pad_plane ?p) ! i ! j = row_gradient ?p (int i) (int j)
               \<and> conv_plane sobel_x (pad_plane ?p) ! i ! j = col_gradient ?p (int i) (int j)"
      using sobel_y_row_gradient [OF wfp pos] sobel_x_col_gradient [OF wfp pos] by simp
    have w: "wf_plane H W (conv_plane sobel_y (pad_plane ?p))"
            "wf_plane H W (conv_plane sobel_x (pad_plane ?p))"
      using wf_conv_plane [OF wf_pad_plane [OF wfp pos(1)]] by simp_all
    show ?thesis using hb g w by (simp add: gxb gyb)
  qed
  show ?thesis
    using run lh per sobel_kernels by blast
qed

theorem get_gradients_sobel_swapped_witness:
  "wf4 1 1 2 2 [[[[1, 2], [4, 5]]]] \<and> (2::nat) \<le> 2
   \<and> pixel_size (SafetyBarrier (1/4) (5/2) 32) \<noteq> 0
   \<and> length [[(1/8::real, 1/16::real)]] = 1
   \<and> (\<exists>h_val h_grad.
         get_gradients (SafetyBarrier (1/4) (5/2) 32) [[[[1, 2], [4, 5]]]] [[(1/8, 1/16)]]
           = Inr (h_val, h_grad)
       \<and> length h_grad = 1 \<and> length (h_grad ! 0) = 1
       \<and> conv_plane sobel_y (pad_plane [[1, 2], [4, 5]]) ! 0 ! 1
            = row_gradient [[1, 2], [4, 5]] 0 1
       \<and> conv_plane sobel_x (pad_plane [[1, 2], [4, 5]]) ! 0 ! 1
            = col_gradient [[1, 2], [4, 5]] 0 1
       \<and> h_grad ! 0 ! 0 =
           (bilinear_border (conv_plane sobel_y (pad_plane [[1, 2], [4, 5]]))
              (metric_to_grid_point (SafetyBarrier (1/4) (5/2) 32) 2 2 (1/8, 1/16)) / (1/4),
            bilinear_border (conv_plane sobel_x (pad_plane [[1, 2], [4, 5]]))
              (metric_to_grid_point (SafetyBarrier (1/4) (5/2) 32) 2 2 (1/8, 1/16)) / (1/4)))"
proof -
  let ?S = "[[[[1, 2], [4, 5::real]]]]"
  let ?T = "[[(1/8::real, 1/16::real)]]"
  let ?c = "SafetyBarrier (1/4) (5/2) 32"
  have h: "wf4 1 1 2 2 ?S" "(2::nat) \<le> 2" "pixel_size ?c \<noteq> 0" "length ?T = 1"
    by (simp_all add: wf4_def wf_plane_def SafetyBarrier_def)
  obtain h_val h_grad where r: "get_gradients ?c ?S ?T = Inr (h_val, h_grad)"
    and l: "length h_grad = 1"
    and p: "\<forall>b<1. length (h_grad ! b) = length (?T ! b)
           \<and> wf_plane 2 2 (conv_plane sobel_y (pad_plane (?S ! b ! 0)))
           \<and> wf_plane 2 2 (conv_plane sobel_x (pad_plane (?S ! b ! 0)))
           \<and> (\<forall>i<2. \<forall>j<2.
                 conv_plane sobel_y (pad_plane (?S ! b ! 0)) ! i ! j
                   = row_gradient (?S ! b ! 0) (int i) (int j)
               \<and> conv_plane sobel_x (pad_plane (?S ! b ! 0)) ! i ! j
                   = col_gradient (?S ! b ! 0) (int i) (int j))
           \<and> (\<forall>n<length (?T ! b).
                 h_grad ! b ! n =
                   (bilinear_border (conv_plane sobel_y (pad_plane (?S ! b ! 0)))
                      (metric_to_grid_point ?c 2 2 (?T ! b ! n)) / pixel_size ?c,
                    bilinear_border (conv_plane sobel_x (pad_plane (?S ! b ! 0)))
                      (metric_to_grid_point ?c 2 2 (?T ! b ! n)) / pixel_size ?c))"
    using get_gradients_sobel_swapped [OF h(1) h(2) h(2) h(3) h(4)] by blast
  from p have p0: "length (h_grad ! 0) = length (?T ! 0)
           \<and> (\<forall>i<2. \<forall>j<2.
                 conv_plane sobel_y (pad_plane (?S ! 0 ! 0)) ! i ! j
                   = row_gradient (?S ! 0 ! 0) (int i) (int j)
               \<and> conv_plane sobel_x (pad_plane (?S ! 0 ! 0)) ! i ! j
                   = col_gradient (?S ! 0 ! 0) (int i) (int j))
           \<and> (\<forall>n<length (?T ! 0).
                 h_grad ! 0 ! n =
                   (bilinear_border (conv_plane sobel_y (pad_plane (?S ! 0 ! 0)))
                      (metric_to_grid_point ?c 2 2 (?T ! 0 ! n)) / pixel_size ?c,
                    bilinear_border (conv_plane sobel_x (pad_plane (?S ! 0 ! 0)))
                      (metric_to_grid_point ?c 2 2 (?T ! 0 ! n)) / pixel_size ?c))"
    by simp
  then have a: "length (h_grad ! 0) = 1" by simp
  from p0 have "\<forall>j<2. conv_plane sobel_y (pad_plane (?S ! 0 ! 0)) ! 0 ! j
                   = row_gradient (?S ! 0 ! 0) (int 0) (int j)
               \<and> conv_plane sobel_x (pad_plane (?S ! 0 ! 0)) ! 0 ! j
                   = col_gradient (?S ! 0 ! 0) (int 0) (int j)"
    by simp
  then have b: "conv_plane sobel_y (pad_plane [[1, 2], [4, 5]]) ! 0 ! 1
            = row_gradient [[1, 2], [4, 5]] 0 1"
     "conv_plane sobel_x (pad_plane [[1, 2], [4, 5]]) ! 0 ! 1
            = col_gradient [[1, 2], [4, 5]] 0 1"
    by simp_all
  from p0 have c: "h_grad ! 0 ! 0 =
           (bilinear_border (conv_plane sobel_y (pad_plane [[1, 2], [4, 5]]))
              (metric_to_grid_point ?c 2 2 (1/8, 1/16)) / (1/4),
            bilinear_border (conv_plane sobel_x (pad_plane [[1, 2], [4, 5]]))
              (metric_to_grid_point ?c 2 2 (1/8, 1/16)) / (1/4))"
    by (simp add: SafetyBarrier_def)
  show ?thesis using h r l a b c by blast
qed

section \<open>Metric to grid conversion\<close>

text \<open>
  C2. For every trajectory point (forward, lateral) and grid of H rows and W columns,
  \<^verbatim>\<open>metric_to_grid\<close> computes row = forward / pixel_size and
  col = lateral / pixel_size + W / 2, normalizes each index by
  (index / (dim - 1)) * 2 - 1, and pins both normalized coordinates to [-1, 1]: a
  coordinate below -1 becomes -1, one above 1 becomes 1, and no point is rejected. The
  returned pair is (horizontal, vertical), the order in which the sampler reads it:
  the column coordinate first, the row coordinate second. The grid has at least two
  rows and two columns and \<open>pixel_size\<close> is not zero, so that no division is by zero.
\<close>

theorem metric_to_grid_conversion:
  assumes "b < length trajs" "n < length (trajs ! b)"
    and "pixel_size self \<noteq> 0" "2 \<le> H" "2 \<le> W"
  shows "length (metric_to_grid self trajs H W) = length trajs
       \<and> length (metric_to_grid self trajs H W ! b) = length (trajs ! b)
       \<and> metric_to_grid self trajs H W ! b ! n =
           (pinned (normalized (grid_col self W (snd (trajs ! b ! n))) W),
            pinned (normalized (grid_row self (fst (trajs ! b ! n))) H))
       \<and> - 1 \<le> fst (metric_to_grid self trajs H W ! b ! n)
       \<and> fst (metric_to_grid self trajs H W ! b ! n) \<le> 1
       \<and> - 1 \<le> snd (metric_to_grid self trajs H W ! b ! n)
       \<and> snd (metric_to_grid self trajs H W ! b ! n) \<le> 1"
  using assms
  by (simp add: metric_to_grid_def metric_to_grid_point_def Let_def clamp_def pinned_def
                normalized_def grid_col_def grid_row_def min_def max_def)

theorem metric_to_grid_conversion_witness:
  "(0::nat) < length [[(100::real, -100::real), (4, 2)]]
   \<and> (1::nat) < length ([[(100::real, -100::real), (4, 2)]] ! 0)
   \<and> pixel_size (SafetyBarrier (1/4) (5/2) 32) \<noteq> 0 \<and> (2::nat) \<le> 64
   \<and> metric_to_grid (SafetyBarrier (1/4) (5/2) 32) [[(100, -100), (4, 2)]] 64 64 ! 0 ! 0 = (-1, 1)
   \<and> metric_to_grid (SafetyBarrier (1/4) (5/2) 32) [[(100, -100), (4, 2)]] 64 64 ! 0 ! 1
        = (17/63, -31/63)"
proof -
  let ?T = "[[(100::real, -100::real), (4, 2)]]"
  let ?c = "SafetyBarrier (1/4) (5/2) 32"
  have h: "(0::nat) < length ?T" "(0::nat) < length (?T ! 0)" "(1::nat) < length (?T ! 0)"
     "pixel_size ?c \<noteq> 0" "(2::nat) \<le> 64"
    by (simp_all add: SafetyBarrier_def)
  have a: "metric_to_grid ?c ?T 64 64 ! 0 ! 0 = (-1, 1)"
    using metric_to_grid_conversion [OF h(1) h(2) h(4) h(5) h(5)]
    by (simp add: pinned_def normalized_def grid_col_def grid_row_def SafetyBarrier_def)
  have b: "metric_to_grid ?c ?T 64 64 ! 0 ! 1 = (17/63, -31/63)"
    using metric_to_grid_conversion [OF h(1) h(3) h(4) h(5) h(5)]
    by (simp add: pinned_def normalized_def grid_col_def grid_row_def SafetyBarrier_def)
  show ?thesis using h a b by simp
qed

section \<open>The signed distance field\<close>

text \<open>
  C1. For an occupancy input of shape [B, C, H, W] with at least two channels and any
  threshold (in particular any in (0, 1)), \<^verbatim>\<open>compute_sdf\<close> returns a field of shape
  [B, 1, H, W] that is, at every cell,
  (distance transform of the drivable mask - distance transform of the non-drivable
  mask) * pixel_size - ego_radius. The drivable mask is 1 exactly where the sigmoid of
  the channel-1 logit is strictly above the threshold and 0 elsewhere, the non-drivable
  mask is its complement. The distance transform is any function that returns tensors
  of the mask's shape on these two masks.
\<close>

theorem compute_sdf_formula:
  assumes "wf4 B C H W semantics" "2 \<le> C"
    and "wf4 B 1 H W (dt (drivable_mask semantics threshold))"
    and "wf4 B 1 H W (dt (non_drivable_mask semantics threshold))"
  shows "wf4 B 1 H W (compute_sdf dt self semantics threshold)
       \<and> (\<forall>b<B. \<forall>i<H. \<forall>j<W.
            drivable_mask semantics threshold ! b ! 0 ! i ! j
              = (if sigmoid (semantics ! b ! 1 ! i ! j) > threshold then 1 else 0)
          \<and> non_drivable_mask semantics threshold ! b ! 0 ! i ! j
              = (if sigmoid (semantics ! b ! 1 ! i ! j) > threshold then 0 else 1)
          \<and> compute_sdf dt self semantics threshold ! b ! 0 ! i ! j
              = (dt (drivable_mask semantics threshold) ! b ! 0 ! i ! j
                 - dt (non_drivable_mask semantics threshold) ! b ! 0 ! i ! j)
                * pixel_size self - ego_radius self)"
proof -
  have "wf4 B 1 H W (compute_sdf dt self semantics threshold)"
    using assms(3,4) by (simp add: compute_sdf_def signed_field_def Let_def wf4_tmap wf4_tzip)
  moreover have "drivable_mask semantics threshold ! b ! 0 ! i ! j
              = (if sigmoid (semantics ! b ! 1 ! i ! j) > threshold then 1 else 0)
          \<and> non_drivable_mask semantics threshold ! b ! 0 ! i ! j
              = (if sigmoid (semantics ! b ! 1 ! i ! j) > threshold then 0 else 1)
          \<and> compute_sdf dt self semantics threshold ! b ! 0 ! i ! j
              = (dt (drivable_mask semantics threshold) ! b ! 0 ! i ! j
                 - dt (non_drivable_mask semantics threshold) ! b ! 0 ! i ! j)
                * pixel_size self - ego_radius self"
    if "b < B" "i < H" "j < W" for b i j
    using drivable_mask_cell [OF assms(1,2) that] non_drivable_mask_cell [OF assms(1,2) that]
      compute_sdf_cell(1) [OF assms(3,4) that]
    by simp
  ultimately show ?thesis by blast
qed

theorem compute_sdf_formula_witness:
  "wf4 1 2 1 2 [[[[7, 7]], [[0, 0]]]] \<and> (2::nat) \<le> 2
   \<and> wf4 1 1 1 2 (distance_transform 100 (drivable_mask [[[[7, 7]], [[0, 0]]]] (1/4)))
   \<and> wf4 1 1 1 2 (distance_transform 100 (non_drivable_mask [[[[7, 7]], [[0, 0]]]] (1/4)))
   \<and> wf4 1 1 1 2 (compute_sdf (distance_transform 100) (SafetyBarrier (1/4) (5/2) 32)
                     [[[[7, 7]], [[0, 0]]]] (1/4))
   \<and> drivable_mask [[[[7, 7]], [[0, 0]]]] (1/4) ! 0 ! 0 ! 0 ! 1 = 1
   \<and> non_drivable_mask [[[[7, 7]], [[0, 0]]]] (1/4) ! 0 ! 0 ! 0 ! 1 = 0
   \<and> compute_sdf (distance_transform 100) (SafetyBarrier (1/4) (5/2) 32)
         [[[[7, 7]], [[0, 0]]]] (1/4) ! 0 ! 0 ! 0 ! 1
       = (distance_transform 100 (drivable_mask [[[[7, 7]], [[0, 0]]]] (1/4)) ! 0 ! 0 ! 0 ! 1
          - distance_transform 100 (non_drivable_mask [[[[7, 7]], [[0, 0]]]] (1/4)) ! 0 ! 0 ! 0 ! 1)
         * (1/4) - 5/2"
proof -
  let ?S = "[[[[7, 7]], [[0, 0::real]]]]"
  let ?c = "SafetyBarrier (1/4) (5/2) 32"
  have h: "wf4 1 2 1 2 ?S" "(2::nat) \<le> 2"
    by (simp_all add: wf4_def wf_plane_def)
  have d: "wf4 1 1 1 2 (distance_transform 100 (drivable_mask ?S (1/4)))"
          "wf4 1 1 1 2 (distance_transform 100 (non_drivable_mask ?S (1/4)))"
    using wf4_drivable_mask [OF h] by (simp_all add: wf4_distance_transform)
  have i: "(0::nat) < 1" "(1::nat) < 2" by simp_all
  note t = compute_sdf_formula [OF h d, of ?c]
  from t have w: "wf4 1 1 1 2 (compute_sdf (distance_transform 100) ?c ?S (1/4))" by blast
  from t i have c: "drivable_mask ?S (1/4) ! 0 ! 0 ! 0 ! 1
              = (if sigmoid (?S ! 0 ! 1 ! 0 ! 1) > 1/4 then 1 else 0)
          \<and> non_drivable_mask ?S (1/4) ! 0 ! 0 ! 0 ! 1
              = (if sigmoid (?S ! 0 ! 1 ! 0 ! 1) > 1/4 then 0 else 1)
          \<and> compute_sdf (distance_transform 100) ?c ?S (1/4) ! 0 ! 0 ! 0 ! 1
              = (distance_transform 100 (drivable_mask ?S (1/4)) ! 0 ! 0 ! 0 ! 1
                 - distance_transform 100 (non_drivable_mask ?S (1/4)) ! 0 ! 0 ! 0 ! 1)
                * pixel_size ?c - ego_radius ?c"
    by blast
  have s: "sigmoid (?S ! 0 ! 1 ! 0 ! 1) > 1/4" by (simp add: sigmoid_0)
  show ?thesis using h d w c s by (simp add: SafetyBarrier_def)
qed

section \<open>Degenerate masks\<close>

text \<open>
  C8. With the distance transform of the spec, whose degenerate value \<open>far\<close> is at
  least one grid cell: in a batch element whose thresholded drivable mask is all ones,
  every cell of the field before the margin subtraction is \<open>far\<close> grid cells, strictly
  positive also after scaling by a positive \<open>pixel_size\<close>; in one whose drivable mask
  is all zeros, every such cell is \<open>- far\<close>, strictly negative. In both cases the
  value \<^verbatim>\<open>compute_sdf\<close> returns is the defined number
  \<open>\<plusminus> far * pixel_size - ego_radius\<close>.
\<close>

theorem degenerate_mask_sign:
  assumes wf: "wf4 B C H W semantics" and ch: "2 \<le> C"
    and far: "1 \<le> far" and ps: "0 < pixel_size self"
    and idx: "b < B" "i < H" "j < W"
  shows "((\<forall>i<H. \<forall>j<W. sigmoid (semantics ! b ! 1 ! i ! j) > threshold) \<longrightarrow>
            signed_field (distance_transform far) semantics threshold ! b ! 0 ! i ! j = far
          \<and> 0 < signed_field (distance_transform far) semantics threshold ! b ! 0 ! i ! j
                  * pixel_size self
          \<and> compute_sdf (distance_transform far) self semantics threshold ! b ! 0 ! i ! j
              = far * pixel_size self - ego_radius self)
       \<and> ((\<forall>i<H. \<forall>j<W. \<not> sigmoid (semantics ! b ! 1 ! i ! j) > threshold) \<longrightarrow>
            signed_field (distance_transform far) semantics threshold ! b ! 0 ! i ! j = - far
          \<and> signed_field (distance_transform far) semantics threshold ! b ! 0 ! i ! j
                  * pixel_size self < 0
          \<and> compute_sdf (distance_transform far) self semantics threshold ! b ! 0 ! i ! j
              = - far * pixel_size self - ego_radius self)"
proof -
  let ?dt = "distance_transform far"
  let ?D = "drivable_mask semantics threshold"
  let ?N = "non_drivable_mask semantics threshold"
  note wD = wf4_drivable_mask(1) [OF wf ch, of threshold]
  note wN = wf4_drivable_mask(2) [OF wf ch, of threshold]
  have wpD: "wf_plane H W (?D ! b ! 0)" using wf4_singleton(2) [OF wD idx(1)] .
  have wpN: "wf_plane H W (?N ! b ! 0)" using wf4_singleton(2) [OF wN idx(1)] .
  note wdD = wf4_distance_transform [OF wD, of far]
  note wdN = wf4_distance_transform [OF wN, of far]
  have f: "signed_field ?dt semantics threshold ! b ! 0 ! i ! j
             = dt_plane far (?D ! b ! 0) ! i ! j - dt_plane far (?N ! b ! 0) ! i ! j"
    using compute_sdf_cell(2) [OF wdD wdN idx]
    by (simp add: distance_transform_nth [OF wD idx(1)] distance_transform_nth [OF wN idx(1)])
  have c: "compute_sdf ?dt self semantics threshold ! b ! 0 ! i ! j
             = signed_field ?dt semantics threshold ! b ! 0 ! i ! j * pixel_size self
               - ego_radius self"
    using compute_sdf_cell(1,2) [OF wdD wdN idx] by simp
  have Dc: "?D ! b ! 0 ! i' ! j' = (if sigmoid (semantics ! b ! 1 ! i' ! j') > threshold then 1 else 0)"
    if "i' < H" "j' < W" for i' j'
    using drivable_mask_cell [OF wf ch idx(1) that] .
  have Nc: "?N ! b ! 0 ! i' ! j' = 1 - ?D ! b ! 0 ! i' ! j'"
    if "i' < H" "j' < W" for i' j'
    using non_drivable_mask_cell [OF wf ch idx(1) that] .
  have all1: "signed_field ?dt semantics threshold ! b ! 0 ! i ! j = far"
    if a: "\<forall>i<H. \<forall>j<W. sigmoid (semantics ! b ! 1 ! i ! j) > threshold"
  proof -
    have "\<forall>i<H. \<forall>j<W. ?D ! b ! 0 ! i ! j \<noteq> 0" using a Dc by simp
    then have "dt_plane far (?D ! b ! 0) ! i ! j = far"
      using dt_plane_no_zero [OF wpD _ idx(2,3)] by blast
    moreover have "?N ! b ! 0 ! i ! j = 0" using a Dc Nc idx by simp
    then have "dt_plane far (?N ! b ! 0) ! i ! j = 0"
      using dt_plane_at_zero [OF wpN _ idx(2,3)] by blast
    ultimately show ?thesis using f by simp
  qed
  have all0: "signed_field ?dt semantics threshold ! b ! 0 ! i ! j = - far"
    if a: "\<forall>i<H. \<forall>j<W. \<not> sigmoid (semantics ! b ! 1 ! i ! j) > threshold"
  proof -
    have "\<forall>i<H. \<forall>j<W. ?N ! b ! 0 ! i ! j \<noteq> 0" using a Dc Nc by simp
    then have "dt_plane far (?N ! b ! 0) ! i ! j = far"
      using dt_plane_no_zero [OF wpN _ idx(2,3)] by blast
    moreover have "?D ! b ! 0 ! i ! j = 0" using a Dc idx by simp
    then have "dt_plane far (?D ! b ! 0) ! i ! j = 0"
      using dt_plane_at_zero [OF wpD _ idx(2,3)] by blast
    ultimately show ?thesis using f by simp
  qed
  have pos: "0 < far * pixel_size self" using far ps by simp
  show ?thesis
  proof (intro conjI impI)
    assume a: "\<forall>i<H. \<forall>j<W. sigmoid (semantics ! b ! 1 ! i ! j) > threshold"
    show "signed_field ?dt semantics threshold ! b ! 0 ! i ! j = far" using all1 [OF a] .
    show "0 < signed_field ?dt semantics threshold ! b ! 0 ! i ! j * pixel_size self"
      using all1 [OF a] pos by simp
    show "compute_sdf ?dt self semantics threshold ! b ! 0 ! i ! j
              = far * pixel_size self - ego_radius self"
      using c all1 [OF a] by simp
  next
    assume a: "\<forall>i<H. \<forall>j<W. \<not> sigmoid (semantics ! b ! 1 ! i ! j) > threshold"
    show "signed_field ?dt semantics threshold ! b ! 0 ! i ! j = - far" using all0 [OF a] .
    show "signed_field ?dt semantics threshold ! b ! 0 ! i ! j * pixel_size self < 0"
      using all0 [OF a] pos by simp
    show "compute_sdf ?dt self semantics threshold ! b ! 0 ! i ! j
              = - far * pixel_size self - ego_radius self"
      using c all0 [OF a] by simp
  qed
qed

theorem degenerate_mask_sign_witness:
  "wf4 1 2 1 2 [[[[7, 7]], [[0, 0]]]] \<and> (2::nat) \<le> 2 \<and> (1::real) \<le> 100
   \<and> 0 < pixel_size (SafetyBarrier (1/4) (5/2) 32)
   \<and> sigmoid ([[[[7, 7]], [[0, 0]]]] ! 0 ! 1 ! 0 ! 0) > 1/4
   \<and> sigmoid ([[[[7, 7]], [[0, 0]]]] ! 0 ! 1 ! 0 ! 1) > 1/4
   \<and> \<not> sigmoid ([[[[7, 7]], [[0, 0]]]] ! 0 ! 1 ! 0 ! 0) > 1/2
   \<and> \<not> sigmoid ([[[[7, 7]], [[0, 0]]]] ! 0 ! 1 ! 0 ! 1) > 1/2
   \<and> signed_field (distance_transform 100) [[[[7, 7]], [[0, 0]]]] (1/4) ! 0 ! 0 ! 0 ! 1 = 100
   \<and> compute_sdf (distance_transform 100) (SafetyBarrier (1/4) (5/2) 32)
         [[[[7, 7]], [[0, 0]]]] (1/4) ! 0 ! 0 ! 0 ! 1 = 45/2
   \<and> signed_field (distance_transform 100) [[[[7, 7]], [[0, 0]]]] (1/2) ! 0 ! 0 ! 0 ! 1 = - 100
   \<and> compute_sdf (distance_transform 100) (SafetyBarrier (1/4) (5/2) 32)
         [[[[7, 7]], [[0, 0]]]] (1/2) ! 0 ! 0 ! 0 ! 1 = - 55/2"
proof -
  let ?S = "[[[[7, 7]], [[0, 0::real]]]]"
  let ?c = "SafetyBarrier (1/4) (5/2) 32"
  have h: "wf4 1 2 1 2 ?S" "(2::nat) \<le> 2" "(1::real) \<le> 100" "0 < pixel_size ?c"
    "(0::nat) < 1" "(1::nat) < 2"
    by (simp_all add: wf4_def wf_plane_def SafetyBarrier_def)
  have s: "sigmoid (?S ! 0 ! 1 ! 0 ! 0) > 1/4" "sigmoid (?S ! 0 ! 1 ! 0 ! 1) > 1/4"
    "\<not> sigmoid (?S ! 0 ! 1 ! 0 ! 0) > 1/2" "\<not> sigmoid (?S ! 0 ! 1 ! 0 ! 1) > 1/2"
    by (simp_all add: sigmoid_0)
  have a1: "\<forall>i<1. \<forall>j<2. sigmoid (?S ! 0 ! 1 ! i ! j) > 1/4"
    using s by (auto simp: less_2_cases_iff)
  have a0: "\<forall>i<1. \<forall>j<2. \<not> sigmoid (?S ! 0 ! 1 ! i ! j) > 1/2"
    using s by (auto simp: less_2_cases_iff)
  have r1: "signed_field (distance_transform 100) ?S (1/4) ! 0 ! 0 ! 0 ! 1 = 100
      \<and> compute_sdf (distance_transform 100) ?c ?S (1/4) ! 0 ! 0 ! 0 ! 1
          = 100 * pixel_size ?c - ego_radius ?c"
    using degenerate_mask_sign [OF h(1,2,3,4) h(5) h(5) h(6), of "1/4"] a1 by blast
  have r0: "signed_field (distance_transform 100) ?S (1/2) ! 0 ! 0 ! 0 ! 1 = - 100
      \<and> compute_sdf (distance_transform 100) ?c ?S (1/2) ! 0 ! 0 ! 0 ! 1
          = - 100 * pixel_size ?c - ego_radius ?c"
    using degenerate_mask_sign [OF h(1,2,3,4) h(5) h(5) h(6), of "1/2"] a0 by blast
  show ?thesis using h s r1 r0 by (simp add: SafetyBarrier_def)
qed

section \<open>The stored range is never read\<close>

text \<open>
  C9. Two configurations that differ only in \<open>bev_range\<close> give the same result of
  \<^verbatim>\<open>compute_sdf\<close>, of \<^verbatim>\<open>get_gradients\<close> and of \<^verbatim>\<open>metric_to_grid\<close> on every input.
\<close>

theorem bev_range_not_read:
  "compute_sdf dt (self\<lparr>bev_range := r\<rparr>) semantics threshold
     = compute_sdf dt self semantics threshold
   \<and> get_gradients (self\<lparr>bev_range := r\<rparr>) sdf trajs = get_gradients self sdf trajs
   \<and> metric_to_grid (self\<lparr>bev_range := r\<rparr>) trajs H W = metric_to_grid self trajs H W"
  by (simp add: compute_sdf_def get_gradients_def metric_to_grid_def
        metric_to_grid_point_bev_range Let_def cong: sum.case_cong)

section \<open>No configuration check\<close>

text \<open>
  C6, as the code has it. Neither \<^verbatim>\<open>__init__\<close> nor \<^verbatim>\<open>compute_sdf\<close> checks the
  configuration: for every \<open>pixel_size\<close>, \<open>ego_radius\<close> and threshold, valid or not,
  \<^verbatim>\<open>compute_sdf\<close> returns a field, and it is the field of the unit configuration
  (\<open>pixel_size\<close> 1, \<open>ego_radius\<close> 0) multiplied by \<open>pixel_size\<close> and lowered by
  \<open>ego_radius\<close> in every cell.
\<close>

theorem compute_sdf_any_configuration:
  "compute_sdf dt self semantics threshold
     = tmap (\<lambda>v. v * pixel_size self - ego_radius self)
         (compute_sdf dt (SafetyBarrier 1 0 (bev_range self)) semantics threshold)"
  by (simp add: compute_sdf_def SafetyBarrier_def tmap_tmap)

text \<open>
  The claim as the spec states it fails: with \<open>pixel_size\<close> -1, \<open>ego_radius\<close> -1 and
  threshold 2, on a one-cell scene and with the distance transform of the spec,
  \<^verbatim>\<open>compute_sdf\<close> returns the field with the single cell 101 and no error.
\<close>

theorem compute_sdf_invalid_configuration_accepted:
  "compute_sdf (distance_transform 100) (SafetyBarrier (-1) (-1) 32) [[[[7]], [[0]]]] 2
     = [[[[101]]]]"
  by (simp add: compute_sdf_def signed_field_def drivable_mask_def non_drivable_mask_def
        road_channel_def tmap_def tzip_def sigmoid_0 distance_transform_def dt_plane_def
        zero_cells_def cell_distance_def SafetyBarrier_def Let_def)

section \<open>Failures come from the library calls\<close>

text \<open>
  C5, as the code has it. Neither function checks shapes at entry and neither has an
  error of its own. \<^verbatim>\<open>get_gradients\<close> called with an sdf and trajectories of different
  batch sizes fails with a RuntimeError raised inside a library call; when the sdf
  itself has the shape [B, 1, H, W] with non-empty planes, the padding and both
  convolutions return first and the error is the one the sampler \<^verbatim>\<open>F.grid_sample\<close>
  raises. With equal batch sizes that call returns values and gradients.
  \<^verbatim>\<open>compute_sdf\<close> fails exactly when one of its two distance transform calls fails,
  with that call's error, and returns the field otherwise.
\<close>

theorem failures_are_raised_by_library_calls:
  "(length sdf \<noteq> length trajs \<longrightarrow> (\<exists>c. get_gradients self sdf trajs = Inl (RuntimeError c)))
   \<and> (wf4 B 1 H W sdf \<and> 0 < H \<and> 0 < W \<and> length trajs \<noteq> B \<longrightarrow>
         (\<exists>p gx gy. pad_replicate sdf = Inr p \<and> conv2d p sobel_x = Inr gx
                     \<and> conv2d p sobel_y = Inr gy)
         \<and> get_gradients self sdf trajs = Inl (RuntimeError F_grid_sample))
   \<and> (wf4 B 1 H W sdf \<and> 0 < H \<and> 0 < W \<and> length trajs = B \<longrightarrow>
         (\<exists>h_val h_grad. get_gradients self sdf trajs = Inr (h_val, h_grad)))
   \<and> (compute_sdf_call dt' self semantics threshold = Inl e \<longleftrightarrow>
         dt' (drivable_mask semantics threshold) = Inl e
         \<or> (\<exists>d. dt' (drivable_mask semantics threshold) = Inr d)
            \<and> dt' (non_drivable_mask semantics threshold) = Inl e)
   \<and> (dt' (drivable_mask semantics threshold) = Inr (dt (drivable_mask semantics threshold))
        \<and> dt' (non_drivable_mask semantics threshold)
            = Inr (dt (non_drivable_mask semantics threshold)) \<longrightarrow>
         compute_sdf_call dt' self semantics threshold
           = Inr (compute_sdf dt self semantics threshold))"
proof (intro conjI impI)
  assume "length sdf \<noteq> length trajs"
  then show "\<exists>c. get_gradients self sdf trajs = Inl (RuntimeError c)"
    by (rule get_gradients_mismatch)
next
  assume a: "wf4 B 1 H W sdf \<and> 0 < H \<and> 0 < W \<and> length trajs \<noteq> B"
  then have wf: "wf4 B 1 H W sdf" and pos: "0 < H" "0 < W" and ne: "length trajs \<noteq> B"
    by simp_all
  show "\<exists>p gx gy. pad_replicate sdf = Inr p \<and> conv2d p sobel_x = Inr gx
                     \<and> conv2d p sobel_y = Inr gy"
    by (simp add: pad_replicate_wf [OF wf pos] conv2d_wf [OF wf])
  show "get_gradients self sdf trajs = Inl (RuntimeError F_grid_sample)"
    using get_gradients_mismatch_wf [OF wf pos ne] .
next
  assume "wf4 B 1 H W sdf \<and> 0 < H \<and> 0 < W \<and> length trajs = B"
  then show "\<exists>h_val h_grad. get_gradients self sdf trajs = Inr (h_val, h_grad)"
    using get_gradients_wf [of B H W sdf trajs self] by (simp add: Let_def)
next
  show "compute_sdf_call dt' self semantics threshold = Inl e \<longleftrightarrow>
         dt' (drivable_mask semantics threshold) = Inl e
         \<or> (\<exists>d. dt' (drivable_mask semantics threshold) = Inr d)
            \<and> dt' (non_drivable_mask semantics threshold) = Inl e"
    by (rule compute_sdf_call_Inl)
next
  assume "dt' (drivable_mask semantics threshold) = Inr (dt (drivable_mask semantics threshold))
        \<and> dt' (non_drivable_mask semantics threshold)
            = Inr (dt (non_drivable_mask semantics threshold))"
  then show "compute_sdf_call dt' self semantics threshold
           = Inr (compute_sdf dt self semantics threshold)"
    using compute_sdf_call_Inr by blast
qed

theorem failures_are_raised_by_library_calls_witness:
  "length [[[[1, 2], [4, 5::real]]]] \<noteq> length [[(0::real, 0::real)], [(1, 1)]]
   \<and> wf4 1 1 2 2 [[[[1, 2], [4, 5]]]] \<and> (0::nat) < 2
   \<and> length [[(0::real, 0::real)], [(1, 1)]] \<noteq> 1 \<and> length [[(0::real, 0::real)]] = 1
   \<and> get_gradients (SafetyBarrier (1/4) (5/2) 32) [[[[1, 2], [4, 5]]]] [[(0, 0)], [(1, 1)]]
       = Inl (RuntimeError F_grid_sample)
   \<and> (\<exists>h_val h_grad. get_gradients (SafetyBarrier (1/4) (5/2) 32) [[[[1, 2], [4, 5]]]] [[(0, 0)]]
         = Inr (h_val, h_grad))
   \<and> compute_sdf_call (\<lambda>t. Inr (distance_transform 100 t)) (SafetyBarrier (1/4) (5/2) 32)
         [[[[7]], [[0]]]] (1/4)
       = Inr (compute_sdf (distance_transform 100) (SafetyBarrier (1/4) (5/2) 32)
               [[[[7]], [[0]]]] (1/4))
   \<and> compute_sdf_call (\<lambda>t. Inl (RuntimeError Distance_transform))
         (SafetyBarrier (1/4) (5/2) 32) [[[[7]]]] (1/4)
       = Inl (RuntimeError Distance_transform)"
proof -
  let ?S = "[[[[1, 2], [4, 5::real]]]]"
  let ?c = "SafetyBarrier (1/4) (5/2) 32"
  let ?T2 = "[[(0::real, 0::real)], [(1, 1)]]"
  let ?T1 = "[[(0::real, 0::real)]]"
  have h: "length ?S \<noteq> length ?T2" "wf4 1 1 2 2 ?S" "(0::nat) < 2"
    "length ?T2 \<noteq> 1" "length ?T1 = 1"
    by (simp_all add: wf4_def wf_plane_def)
  have a: "get_gradients ?c ?S ?T2 = Inl (RuntimeError F_grid_sample)"
    using failures_are_raised_by_library_calls
            [where sdf = ?S and trajs = ?T2 and self = ?c and B = 1 and H = 2 and W = 2] h
    by blast
  have b: "\<exists>h_val h_grad. get_gradients ?c ?S ?T1 = Inr (h_val, h_grad)"
    using failures_are_raised_by_library_calls
            [where sdf = ?S and trajs = ?T1 and self = ?c and B = 1 and H = 2 and W = 2] h
    by blast
  have c: "compute_sdf_call (\<lambda>t. Inr (distance_transform 100 t)) ?c [[[[7]], [[0]]]] (1/4)
       = Inr (compute_sdf (distance_transform 100) ?c [[[[7]], [[0]]]] (1/4))"
    using failures_are_raised_by_library_calls
            [where dt' = "\<lambda>t. Inr (distance_transform 100 t)" and self = ?c
               and semantics = "[[[[7]], [[0]]]]" and threshold = "1/4"
               and dt = "distance_transform 100"]
    by blast
  have d: "compute_sdf_call (\<lambda>t. Inl (RuntimeError Distance_transform)) ?c [[[[7]]]] (1/4)
       = Inl (RuntimeError Distance_transform)"
    using failures_are_raised_by_library_calls
            [where dt' = "\<lambda>t. Inl (RuntimeError Distance_transform)" and self = ?c
               and semantics = "[[[[7]]]]" and threshold = "1/4"
               and e = "RuntimeError Distance_transform"]
    by blast
  show ?thesis using h a b c d by blast
qed

text \<open>
  The claim as the spec states it fails: for an sdf of batch size 1 and trajectories of
  batch size 2, the padded sdf and both gradient maps are computed, and the error is
  raised by the sampler, the fourth library call of the body, not by a check at entry.
\<close>

theorem get_gradients_mismatch_raised_in_sampler:
  "pad_replicate [[[[1, 2], [4, 5]]]] = Inr [[[[1, 1, 2, 2], [1, 1, 2, 2], [4, 4, 5, 5], [4, 4, 5, 5]]]]
   \<and> conv2d [[[[1, 1, 2, 2], [1, 1, 2, 2], [4, 4, 5, 5], [4, 4, 5, 5]]]] sobel_x
       = Inr [[[[1/2, 1/2], [1/2, 1/2]]]]
   \<and> conv2d [[[[1, 1, 2, 2], [1, 1, 2, 2], [4, 4, 5, 5], [4, 4, 5, 5]]]] sobel_y
       = Inr [[[[3/2, 3/2], [3/2, 3/2]]]]
   \<and> get_gradients (SafetyBarrier (1/4) (5/2) 32) [[[[1, 2], [4, 5]]]] [[(0, 0)], [(1, 1)]]
       = Inl (RuntimeError F_grid_sample)"
proof -
  have wf: "wf4 1 1 2 2 [[[[1, 2], [4, 5]]]]" by (simp add: wf4_def wf_plane_def)
  have a: "pad_replicate [[[[1, 2], [4, 5]]]]
             = Inr [[[[1, 1, 2, 2], [1, 1, 2, 2], [4, 4, 5, 5], [4, 4, 5, 5]]]]"
    by (simp add: pad_replicate_def pad_plane_def pad_row_def)
  have u: "[0..<3] = [0, 1, 2]" "[0..<2] = [0, 1]" by (simp_all add: upt_rec)
  have b: "conv2d [[[[1, 1, 2, 2], [1, 1, 2, 2], [4, 4, 5, 5], [4, 4, 5, 5]]]] sobel_x
             = Inr [[[[1/2, 1/2], [1/2, 1/2]]]]"
    by (simp add: conv2d_def conv_plane_def plane_W_def sobel_x_def u)
  have c: "conv2d [[[[1, 1, 2, 2], [1, 1, 2, 2], [4, 4, 5, 5], [4, 4, 5, 5]]]] sobel_y
             = Inr [[[[3/2, 3/2], [3/2, 3/2]]]]"
    by (simp add: conv2d_def conv_plane_def plane_W_def sobel_y_def u)
  have d: "get_gradients (SafetyBarrier (1/4) (5/2) 32) [[[[1, 2], [4, 5]]]] [[(0, 0)], [(1, 1)]]
       = Inl (RuntimeError F_grid_sample)"
    by (rule get_gradients_mismatch_wf [OF wf]) simp_all
  show ?thesis using a b c d by simp
qed

section \<open>Margin shift\<close>

text \<open>
  C7, as the code has it. Running \<^verbatim>\<open>compute_sdf\<close> with \<open>ego_radius + delta\<close> in place of
  \<open>ego_radius\<close> on the same input and threshold leaves the masks and the field before
  the margin unchanged, and applies the last step to the same cells. In exact arithmetic
  every cell of the new field is the old cell minus \<open>delta\<close>. In the float32 arithmetic
  of the tensors the two cells differ by \<open>delta\<close> up to rounding: for a cell \<open>s\<close> of
  the field before the margin, with \<open>x\<close> the rounded product of \<open>s\<close> and \<open>pixel_size\<close>,
  the difference of the cells is within
  (|x - r1| + |x - r2| + |ego_radius| + |ego_radius + delta|) / 2^24 + 4 / 2^150 of
  \<open>delta\<close>, where \<open>r1\<close> and \<open>r2\<close> are the two radii as float32.
\<close>

theorem margin_shift_up_to_rounding:
  "compute_sdf32 dt self semantics threshold
     = tmap (scale_margin32 self) (signed_field32 dt semantics threshold)
   \<and> compute_sdf32 dt (self\<lparr>ego_radius := ego_radius self + delta\<rparr>) semantics threshold
     = tmap (scale_margin32 (self\<lparr>ego_radius := ego_radius self + delta\<rparr>))
         (signed_field32 dt semantics threshold)
   \<and> \<bar>scale_margin32 self s
       - scale_margin32 (self\<lparr>ego_radius := ego_radius self + delta\<rparr>) s - delta\<bar>
     \<le> (\<bar>fl32 (s * fl32 (pixel_size self)) - fl32 (ego_radius self)\<bar>
         + \<bar>fl32 (s * fl32 (pixel_size self)) - fl32 (ego_radius self + delta)\<bar>
         + \<bar>ego_radius self\<bar> + \<bar>ego_radius self + delta\<bar>) / 2 ^ 24 + 4 / 2 ^ 150
   \<and> compute_sdf dt (self\<lparr>ego_radius := ego_radius self + delta\<rparr>) semantics threshold
     = tmap (\<lambda>v. v - delta) (compute_sdf dt self semantics threshold)"
  using scale_margin32_shift [of self s delta]
  by (simp add: compute_sdf32_def compute_sdf_def tmap_tmap Let_def algebra_simps)

text \<open>
  The claim as the spec states it fails in float32: on a one-cell fully drivable scene,
  with the distance transform of the spec (sentinel 100), \<open>pixel_size\<close> 0.25,
  \<open>ego_radius\<close> 2.5 and \<open>delta\<close> 0.1, the cell is 22.5 before and
  11744051/524288 after, lower by 52429/524288 = 0.10000038..., not by 0.1.
\<close>

theorem margin_shift_not_exact:
  "compute_sdf32 (distance_transform 100) (SafetyBarrier (1/4) (5/2) 32) [[[[7]], [[0]]]] (1/4)
     = [[[[45/2]]]]
   \<and> compute_sdf32 (distance_transform 100) (SafetyBarrier (1/4) (5/2 + 1/10) 32)
         [[[[7]], [[0]]]] (1/4)
     = [[[[11744051/524288]]]]
   \<and> (45/2 - 11744051/524288 :: real) = 52429/524288
   \<and> (52429/524288 :: real) \<noteq> 1/10"
proof -
  have f: "signed_field32 (distance_transform 100) [[[[7]], [[0]]]] (1/4) = [[[[100]]]]"
    by (simp add: signed_field32_def drivable_mask_def non_drivable_mask_def
        road_channel_def tmap_def tzip_def sigmoid_0 distance_transform_def dt_plane_def
        zero_cells_def cell_distance_def Let_def fl32_100)
  have a: "scale_margin32 (SafetyBarrier (1/4) (5/2) 32) 100 = 45/2"
    by (simp add: scale_margin32_def SafetyBarrier_def fl32_quarter fl32_25 fl32_5_2 fl32_45_2)
  have b: "scale_margin32 (SafetyBarrier (1/4) (13/5) 32) 100 = 11744051/524288"
    by (simp add: scale_margin32_def SafetyBarrier_def fl32_quarter fl32_25 fl32_13_5 fl32_shifted)
  show ?thesis
    by (simp add: compute_sdf32_def Let_def f tmap_def a b)
qed

section \<open>Sampled clearance and the range of the grid\<close>

text \<open>
  C10, as the code has it. For an sdf of shape [B, 1, H, W] and trajectories of the same
  batch size, the clearance \<^verbatim>\<open>get_gradients\<close> returns for any trajectory point, wherever
  it falls, is a weighted sum of cells of that batch element's grid: the clipped
  coordinates never address a cell outside it. In exact arithmetic the weights are
  non-negative and sum to one, and the clearance lies between the smallest and the
  largest cell. In the float32 arithmetic of the sampler the rounded weights and sums
  can carry the clearance past either end, by no more than
  max(|min|, |max|) / 2^16 + 1 / 2^146. The grid has at least two rows and two columns
  and \<open>pixel_size\<close> is not zero, also as a float32, so that no division is by zero.
\<close>

theorem sampled_value_in_range_up_to_rounding:
  assumes wf: "wf4 B 1 H W sdf" and dims: "2 \<le> H" "2 \<le> W"
    and ps: "pixel_size self \<noteq> 0" "fl32 (pixel_size self) \<noteq> 0"
    and len: "length trajs = B" and b: "b < B" and n: "n < length (trajs ! b)"
  shows "(\<exists>vals. h_val32 self sdf trajs = Inr vals
           \<and> Min (set (concat (sdf ! b ! 0)))
               - (max \<bar>Min (set (concat (sdf ! b ! 0)))\<bar> \<bar>Max (set (concat (sdf ! b ! 0)))\<bar> / 2 ^ 16
                  + 1 / 2 ^ 146) \<le> vals ! b ! n
           \<and> vals ! b ! n
               \<le> Max (set (concat (sdf ! b ! 0)))
                 + (max \<bar>Min (set (concat (sdf ! b ! 0)))\<bar> \<bar>Max (set (concat (sdf ! b ! 0)))\<bar> / 2 ^ 16
                    + 1 / 2 ^ 146))
       \<and> (\<exists>h_val h_grad. get_gradients self sdf trajs = Inr (h_val, h_grad)
           \<and> Min (set (concat (sdf ! b ! 0))) \<le> h_val ! b ! n
           \<and> h_val ! b ! n \<le> Max (set (concat (sdf ! b ! 0))))"
proof
  have pos: "0 < H" "0 < W" using dims by simp_all
  define G where "G = map (map (metric_to_grid_point32 self (shape_H sdf) (shape_W sdf))) trajs"
  have lG: "length G = B" "n < length (G ! b)"
    using len b n by (simp_all add: G_def)
  let ?p = "sdf ! b ! 0"
  have wfp: "wf_plane H W ?p" using wf4_singleton(2) [OF wf b] .
  have bnd: "\<forall>v\<in>set (concat ?p). Min (set (concat ?p)) \<le> v \<and> v \<le> Max (set (concat ?p))"
    by simp
  note r = bilinear_border32_range [OF wfp pos bnd, of "G ! b ! n"]
  have row: "view_BN (map2 (\<lambda>cs pts. map (\<lambda>p. map (bilinear_border32 p) pts) cs) sdf G) ! b ! n
               = bilinear_border32 ?p (G ! b ! n)"
    using view_row [OF wf lG(1) b, of bilinear_border32] lG(2) by simp
  let ?vals = "view_BN (map2 (\<lambda>cs pts. map (\<lambda>p. map (bilinear_border32 p) pts) cs) sdf G)"
  have hv: "h_val32 self sdf trajs = Inr ?vals"
    unfolding G_def by (rule h_val32_wf [OF wf pos len])
  have lo: "Min (set (concat ?p))
               - (max \<bar>Min (set (concat ?p))\<bar> \<bar>Max (set (concat ?p))\<bar> / 2 ^ 16 + 1 / 2 ^ 146)
               \<le> ?vals ! b ! n"
    unfolding row using r by (rule conjunct1)
  have hi: "?vals ! b ! n
               \<le> Max (set (concat ?p))
                 + (max \<bar>Min (set (concat ?p))\<bar> \<bar>Max (set (concat ?p))\<bar> / 2 ^ 16 + 1 / 2 ^ 146)"
    unfolding row using r by (rule conjunct2)
  show "\<exists>vals. h_val32 self sdf trajs = Inr vals
           \<and> Min (set (concat ?p))
               - (max \<bar>Min (set (concat ?p))\<bar> \<bar>Max (set (concat ?p))\<bar> / 2 ^ 16 + 1 / 2 ^ 146)
               \<le> vals ! b ! n
           \<and> vals ! b ! n
               \<le> Max (set (concat ?p))
                 + (max \<bar>Min (set (concat ?p))\<bar> \<bar>Max (set (concat ?p))\<bar> / 2 ^ 16 + 1 / 2 ^ 146)"
    by (intro exI [of _ ?vals] conjI hv lo hi)
  show "\<exists>h_val h_grad. get_gradients self sdf trajs = Inr (h_val, h_grad)
           \<and> Min (set (concat ?p)) \<le> h_val ! b ! n
           \<and> h_val ! b ! n \<le> Max (set (concat ?p))"
    using exact_value_in_range [OF wf dims ps(1) len b n] .
qed

theorem sampled_value_in_range_up_to_rounding_witness:
  "wf4 1 1 2 2 [[[[1, 2], [4, 5]]]] \<and> (2::nat) \<le> 2
   \<and> pixel_size (SafetyBarrier (1/4) (5/2) 32) \<noteq> 0
   \<and> fl32 (pixel_size (SafetyBarrier (1/4) (5/2) 32)) \<noteq> 0
   \<and> length [[(100::real, -100::real)]] = 1 \<and> (0::nat) < 1
   \<and> 0 < length ([[(100::real, -100::real)]] ! 0)
   \<and> (\<exists>vals. h_val32 (SafetyBarrier (1/4) (5/2) 32) [[[[1, 2], [4, 5]]]] [[(100, -100)]]
                 = Inr vals
           \<and> 1 - (5 / 2 ^ 16 + 1 / 2 ^ 146) \<le> vals ! 0 ! 0
           \<and> vals ! 0 ! 0 \<le> 5 + (5 / 2 ^ 16 + 1 / 2 ^ 146))
   \<and> (\<exists>h_val h_grad.
           get_gradients (SafetyBarrier (1/4) (5/2) 32) [[[[1, 2], [4, 5]]]] [[(100, -100)]]
             = Inr (h_val, h_grad)
           \<and> 1 \<le> h_val ! 0 ! 0 \<and> h_val ! 0 ! 0 \<le> 5)"
proof -
  let ?S = "[[[[1, 2], [4, 5::real]]]]"
  let ?c = "SafetyBarrier (1/4) (5/2) 32"
  let ?T = "[[(100::real, -100::real)]]"
  have h: "wf4 1 1 2 2 ?S" "(2::nat) \<le> 2" "pixel_size ?c \<noteq> 0" "fl32 (pixel_size ?c) \<noteq> 0"
    "length ?T = 1" "(0::nat) < 1" "0 < length (?T ! 0)"
    by (simp_all add: wf4_def wf_plane_def SafetyBarrier_def fl32_quarter)
  have mm: "Min (set (concat (?S ! 0 ! 0))) = 1" "Max (set (concat (?S ! 0 ! 0))) = 5"
    by simp_all
  note t = sampled_value_in_range_up_to_rounding [OF h(1) h(2) h(2) h(3) h(4) h(5) h(6) h(7)]
  have a: "\<exists>vals. h_val32 ?c ?S ?T = Inr vals
           \<and> 1 - (5 / 2 ^ 16 + 1 / 2 ^ 146) \<le> vals ! 0 ! 0
           \<and> vals ! 0 ! 0 \<le> 5 + (5 / 2 ^ 16 + 1 / 2 ^ 146)"
    using t [THEN conjunct1] unfolding mm by simp
  have b: "\<exists>h_val h_grad. get_gradients ?c ?S ?T = Inr (h_val, h_grad)
           \<and> 1 \<le> h_val ! 0 ! 0 \<and> h_val ! 0 ! 0 \<le> 5"
    using t [THEN conjunct2] unfolding mm .
  show ?thesis using h a b by (intro conjI)
qed

text \<open>
  The claim as the spec states it fails in float32: on a 2 x 2 grid whose four cells
  are the float32 nearest to 0.1, with \<open>pixel_size\<close> 0.25, the clearance sampled at
  the point (forward 3/32, lateral -1/8) is 3355443/33554432 = 0.0999999940..., below
  the smallest cell 13421773/134217728 = 0.1000000015...
\<close>

theorem sampled_value_below_minimum:
  "h_val32 (SafetyBarrier (1/4) (5/2) 32)
     [[[[13421773/134217728, 13421773/134217728], [13421773/134217728, 13421773/134217728]]]]
     [[(3/32, - (1/8))]]
     = Inr [[3355443/33554432]]
   \<and> (3355443/33554432 :: real)
       < Min (set (concat ([[[[13421773/134217728, 13421773/134217728],
                              [13421773/134217728, 13421773/134217728]]]] ! 0 ! 0)))"
proof -
  let ?S = "[[[[13421773/134217728, 13421773/134217728],
               [13421773/134217728, 13421773/134217728 :: real]]]]"
  have wf: "wf4 1 1 2 2 ?S" by (simp add: wf4_def wf_plane_def)
  have sh: "shape_H ?S = 2" "shape_W ?S = 2"
    by (simp_all add: shape_H_def shape_W_def plane_W_def)
  have a: "h_val32 (SafetyBarrier (1/4) (5/2) 32) ?S [[(3/32, - (1/8))]]
             = Inr [[3355443/33554432]]"
    by (subst h_val32_wf [OF wf])
       (simp_all add: sh grid_point32_example sample32_example view_BN_def)
  have b: "(3355443/33554432 :: real) < Min (set (concat (?S ! 0 ! 0)))" by simp
  show ?thesis using a b by (intro conjI)
qed

end
